theory Spec2Isabelle
  imports Main
begin

section \<open>Text\<close>

text \<open>
  A Python \<open>str\<close> is a sequence of Unicode code points; it is modelled as the list of
  those code points. \<open>asc\<close> reads an ASCII literal. The literals of the source that hold
  characters outside ASCII (log messages, the comments inside the configuration
  templates) are written out code point by code point.
\<close>

type_synonym ustr = "nat list"

definition asc :: "string \<Rightarrow> ustr" where
  "asc s = map of_char s"

text \<open>\<open>s.startswith(p)\<close>.\<close>

definition startswith :: "ustr \<Rightarrow> ustr \<Rightarrow> bool" where
  "startswith s p = (take (length p) s = p)"

text \<open>\<open>sub in s\<close> for two strings: \<open>sub\<close> occurs in \<open>s\<close> as a contiguous run.\<close>

fun contains :: "ustr \<Rightarrow> ustr \<Rightarrow> bool" where
  "contains [] sub = (sub = [])"
| "contains (c # cs) sub = (take (length sub) (c # cs) = sub \<or> contains cs sub)"

text \<open>\<open>s.split(":")\<close>: the pieces between the colons (code point 58); never empty.\<close>

fun split_colon :: "ustr \<Rightarrow> ustr list" where
  "split_colon [] = [[]]"
| "split_colon (c # cs) =
     (if c = 58 then [] # split_colon cs
      else (case split_colon cs of [] \<Rightarrow> [[c]] | p # ps \<Rightarrow> (c # p) # ps))"

text \<open>
  \<open>s.lower()\<close> on the letters A to Z. Python also maps letters outside ASCII; none of
  them is mapped onto a character of the substrings the source searches for in a way
  that creates or destroys an occurrence, so the searches below agree with Python's.
\<close>

definition lower_cp :: "nat \<Rightarrow> nat" where
  "lower_cp c = (if 65 \<le> c \<and> c \<le> 90 then c + 32 else c)"

definition lower :: "ustr \<Rightarrow> ustr" where
  "lower s = map lower_cp s"

text \<open>\<open>s.strip()\<close>: the code points Python's \<open>str.isspace\<close> accepts are dropped at both ends.\<close>

definition is_space :: "nat \<Rightarrow> bool" where
  "is_space c = (c \<in> {9, 10, 11, 12, 13, 28, 29, 30, 31, 32, 133, 160, 5760, 8232, 8233, 8239,
                       8287, 12288} \<or> (8192 \<le> c \<and> c \<le> 8202))"

definition strip :: "ustr \<Rightarrow> ustr" where
  "strip s = rev (dropWhile is_space (rev (dropWhile is_space s)))"

text \<open>\<open>str(n)\<close> for an integer: decimal digits, with a minus sign when negative.\<close>

function str_nat :: "nat \<Rightarrow> ustr" where
  "str_nat n = (if n < 10 then [48 + n] else str_nat (n div 10) @ [48 + n mod 10])"
  by pat_completeness auto
termination
  by (relation "measure id") auto

definition str_int :: "int \<Rightarrow> ustr" where
  "str_int i = (if i < 0 then 45 # str_nat (nat (- i)) else str_nat (nat i))"

text \<open>The lines of a text, split at the line feed (code point 10), as a file holds them.\<close>

fun lines_of :: "ustr \<Rightarrow> ustr list" where
  "lines_of [] = [[]]"
| "lines_of (c # cs) =
     (if c = 10 then [] # lines_of cs
      else (case lines_of cs of [] \<Rightarrow> [[c]] | l # ls \<Rightarrow> (c # l) # ls))"

text \<open>\<open>xs[-n:]\<close> for a positive \<open>n\<close>: the last \<open>n\<close> elements, all of them when there are fewer.\<close>

definition last_n :: "nat \<Rightarrow> 'a list \<Rightarrow> 'a list" where
  "last_n n xs = drop (length xs - n) xs"

section \<open>The machine the deployer runs on\<close>

text \<open>
  \<open>self.system\<close>: the source branches on \<open>self.system == 'windows'\<close> only.
\<close>

datatype os = Windows | Unix

text \<open>
  Exceptions as values: the class (as far as a handler of the source tells classes
  apart) and the text \<open>str(e)\<close>. \<open>ProcessLookupError\<close> and \<open>PermissionError\<close> are
  subclasses of \<open>OSError\<close>; every class here is a subclass of \<open>Exception\<close>.
\<close>

datatype exn_class = ProcessLookupError | PermissionError | OtherOSError | ValueError
  | OtherException

datatype exn = Exn exn_class ustr

fun exn_text :: "exn \<Rightarrow> ustr" where
  "exn_text (Exn c t) = t"

fun is_ProcessLookupError :: "exn \<Rightarrow> bool" where
  "is_ProcessLookupError (Exn c t) = (c = ProcessLookupError)"

fun is_OSError :: "exn \<Rightarrow> bool" where
  "is_OSError (Exn c t) = (c \<in> {ProcessLookupError, PermissionError, OtherOSError})"

text \<open>
  A process of the machine other than the deployer itself. \<open>runs_caddy\<close>: its command
  line matches the pattern \<open>^.*caddy\s+(run|start)\<close> that \<open>pgrep -f\<close> is given.
  \<open>named_caddy\<close>: its command line matches \<open>caddy\<close> (\<open>pkill -f caddy\<close>), on Windows its
  image name is \<open>caddy.exe\<close>. \<open>owned\<close>: the deployer's user may signal it.
  \<open>term_pending\<close>: a SIGTERM was delivered to it; what it does with it is up to the
  process (see \<open>tick\<close> below). A child that has exited and was not waited for is
  still in the table: \<open>os.kill(pid, 0)\<close> succeeds on it.
\<close>

record proc =
  pid :: nat
  runs_caddy :: bool
  named_caddy :: bool
  owned :: bool
  term_pending :: bool

text \<open>
  The PID file is only ever read by \<open>int(f.read().strip())\<close>, so its content is kept as
  what that expression yields: a process id, or the \<open>ValueError\<close> (with its text).
\<close>

datatype pidfile = NoFile | Unparsable ustr | Pid nat

text \<open>
  The files under \<open>~/.caddy\<close> and the process table. \<open>log_file\<close> holds the lines of
  \<open>caddy.log\<close>. \<open>write_error\<close>: the exception that opening a file of the directory for
  writing raises, if any.
\<close>

record machine =
  config_file :: "ustr option"
  pid_file :: pidfile
  log_file :: "ustr list option"
  procs :: "proc list"
  write_error :: "exn option"

text \<open>
  What the deployer has done so far. \<open>calls\<close>: the calls by which it acts on the
  machine or lets time pass, in order: \<open>os.kill\<close> with a signal other than 0,
  \<open>taskkill\<close>, \<open>pkill\<close>, \<open>Popen\<close>, \<open>time.sleep\<close>. \<open>queries\<close>: the calls by which it only
  asks, in order: \<open>os.kill(pid, 0)\<close>, \<open>pgrep\<close>, \<open>tasklist\<close>. \<open>console\<close>: the lines its
  logger printed on standard output. \<open>clock\<close>: the seconds it slept.
\<close>

datatype call = Kill nat nat | TaskkillPid nat | Pkill | TaskkillImage | Popen | Sleep nat

datatype query = ProbePid nat | Pgrep | TasklistPid nat | TasklistImage

record state =
  machine :: machine
  calls :: "call list"
  queries :: "query list"
  console :: "ustr list"
  clock :: nat

text \<open>
  Everything outside the deployer's control is a parameter. \<open>tick\<close> is what the rest
  of the machine does during one second of \<open>time.sleep\<close> (processes exit or start,
  Caddy appends to the log, files change). \<open>popen\<close> is the outcome of
  \<open>subprocess.Popen\<close>: the new process or the exception. \<open>port_conflicts\<close> stands for
  \<open>_check_port_conflicts\<close>, which probes sockets and asks \<open>lsof\<close>, \<open>ss\<close> or \<open>netstat\<close>;
  it yields the occupant of the admin port and the occupied listening ports, or the
  exception that escapes it (\<open>_is_port_listening\<close> catches \<open>OSError\<close> only).
  \<open>asctime\<close> formats the time stamp of a log record. \<open>self_named_caddy\<close>: the
  deployer's own command line matches \<open>caddy\<close>, as it does when the script is run
  under its name (\<open>python caddy_deployer.py deploy\<close>, the form its help text shows).
\<close>

record conflicts =
  admin_port :: "ustr option"
  listening_ports :: "(int \<times> ustr option) list"

record ctx =
  system :: os
  caddy_path :: ustr
  config_dir :: ustr
  tick :: "machine \<Rightarrow> machine"
  popen :: "machine \<Rightarrow> exn + proc"
  port_conflicts :: "machine \<Rightarrow> exn + conflicts"
  asctime :: "nat \<Rightarrow> ustr"
  self_named_caddy :: bool

text \<open>\<open>str(self.config_dir / name)\<close>.\<close>

definition path_in_dir :: "ctx \<Rightarrow> ustr \<Rightarrow> ustr" where
  "path_in_dir cx name = config_dir cx @ (if system cx = Windows then [92] else [47]) @ name"

subsection \<open>The logger\<close>

text \<open>
  \<open>_setup_logging\<close> (source lines 47-58) gives the logger two handlers with the format
  \<open>%(asctime)s - %(levelname)s - %(message)s\<close>: one prints on standard output, the
  other appends to \<open>self.log_file\<close>, the same \<open>caddy.log\<close> that Caddy's output is
  redirected to. The file handler keeps its stream open: when the file was removed
  meanwhile, nothing under that name changes.
\<close>

datatype level = INFO | WARNING | ERROR

fun levelname :: "level \<Rightarrow> ustr" where
  "levelname INFO = asc ''INFO''"
| "levelname WARNING = asc ''WARNING''"
| "levelname ERROR = asc ''ERROR''"

definition format_record :: "ctx \<Rightarrow> nat \<Rightarrow> level \<Rightarrow> ustr \<Rightarrow> ustr" where
  "format_record cx t lvl msg = asctime cx t @ asc '' - '' @ levelname lvl @ asc '' - '' @ msg"

definition append_log :: "ustr \<Rightarrow> machine \<Rightarrow> machine" where
  "append_log rendered m = m\<lparr>log_file := map_option (\<lambda>ls. ls @ lines_of rendered) (log_file m)\<rparr>"

definition logger :: "ctx \<Rightarrow> level \<Rightarrow> ustr \<Rightarrow> state \<Rightarrow> state" where
  "logger cx lvl msg s =
     (let rendered = format_record cx (clock s) lvl msg
      in s\<lparr>console := console s @ [rendered], machine := append_log rendered (machine s)\<rparr>)"

definition ask :: "query list \<Rightarrow> state \<Rightarrow> state" where
  "ask qs s = s\<lparr>queries := queries s @ qs\<rparr>"

text \<open>\<open>time.sleep(n)\<close>: \<open>n\<close> seconds pass on the machine.\<close>

definition sleep :: "ctx \<Rightarrow> nat \<Rightarrow> state \<Rightarrow> state" where
  "sleep cx n s = s\<lparr>machine := (tick cx ^^ n) (machine s), calls := calls s @ [Sleep n],
                    clock := clock s + n\<rparr>"

section \<open>\<open>generate_config\<close> (source lines 166-294)\<close>

text \<open>The fixed text of the three templates, cut at the places where a value is put in.\<close>

definition site_open :: ustr where
  \<comment> \<open>source lines 188-189: from the site address to the backend address\<close>
  \<open>site_open =
     asc '' {\<newline>'' @
     asc ''    reverse_proxy ''\<close>

definition proxy_options :: ustr where
  \<comment> \<open>source lines 189-200 (the same text at 224-235 and 255-266)\<close>
  \<open>proxy_options =
     asc '' {\<newline>'' @
     asc ''        # '' @ [0x652F, 0x6301, 0x6D41, 0x5F0F, 0x54CD, 0x5E94, 0xFF08] @ asc ''SSE'' @
     [0xFF09] @ asc ''\<newline>'' @
     asc ''        flush_interval -1\<newline>'' @
     asc ''\<newline>'' @
     asc ''        # '' @ [0x8D85, 0x65F6, 0x8BBE, 0x7F6E] @ asc ''\<newline>'' @
     asc ''        transport http {\<newline>'' @
     asc ''            read_timeout 300s\<newline>'' @
     asc ''            write_timeout 300s\<newline>'' @
     asc ''            dial_timeout 30s\<newline>'' @
     asc ''        }\<newline>'' @
     asc ''    }\<newline>'' @
     asc ''\<newline>''\<close>

definition headers_local :: ustr where
  \<comment> \<open>source lines 201-206\<close>
  \<open>headers_local =
     asc ''    # '' @ [0x5B89, 0x5168, 0x5934, 0x90E8] @ asc ''\<newline>'' @
     asc ''    header {\<newline>'' @
     asc ''        X-Frame-Options "SAMEORIGIN"\<newline>'' @
     asc ''        X-Content-Type-Options "nosniff"\<newline>'' @
     asc ''        -Server\<newline>'' @
     asc ''    }\<newline>''\<close>

definition headers_http :: ustr where
  \<comment> \<open>source lines 236-242\<close>
  \<open>headers_http =
     asc ''    # '' @ [0x5B89, 0x5168, 0x5934, 0x90E8, 0xFF08, 0x4E0D, 0x5305, 0x542B] @
     asc ''HSTS'' @ [0xFF09] @ asc ''\<newline>'' @
     asc ''    header {\<newline>'' @
     asc ''        X-Frame-Options "DENY"\<newline>'' @
     asc ''        X-Content-Type-Options "nosniff"\<newline>'' @
     asc ''        Referrer-Policy "strict-origin-when-cross-origin"\<newline>'' @
     asc ''        -Server\<newline>'' @
     asc ''    }\<newline>''\<close>

definition headers_https :: ustr where
  \<comment> \<open>source lines 267-274\<close>
  \<open>headers_https =
     asc ''    # '' @ [0x5B89, 0x5168, 0x5934, 0x90E8] @ asc ''\<newline>'' @
     asc ''    header {\<newline>'' @
     asc ''        Strict-Transport-Security "max-age=31536000; includeSubDomains"\<newline>'' @
     asc ''        X-Frame-Options "DENY"\<newline>'' @
     asc ''        X-Content-Type-Options "nosniff"\<newline>'' @
     asc ''        Referrer-Policy "strict-origin-when-cross-origin"\<newline>'' @
     asc ''        -Server\<newline>'' @
     asc ''    }\<newline>''\<close>

definition log_open :: ustr where
  \<comment> \<open>source lines 207-210 (the same text at 243-246 and 275-278)\<close>
  \<open>log_open =
     asc ''    \<newline>'' @
     asc ''    # '' @ [0x8BBF, 0x95EE, 0x65E5, 0x5FD7] @ asc ''\<newline>'' @
     asc ''    log {\<newline>'' @
     asc ''        output file ''\<close>

definition log_close_local :: ustr where
  \<comment> \<open>source lines 210-215: roll_keep 3\<close>
  \<open>log_close_local =
     asc ''/access.log {\<newline>'' @
     asc ''            roll_size 100mb\<newline>'' @
     asc ''            roll_keep 3\<newline>'' @
     asc ''        }\<newline>'' @
     asc ''    }\<newline>'' @
     asc ''}''\<close>

definition log_close_prod :: ustr where
  \<comment> \<open>source lines 246-251 and 278-283: roll_keep 5\<close>
  \<open>log_close_prod =
     asc ''/access.log {\<newline>'' @
     asc ''            roll_size 100mb\<newline>'' @
     asc ''            roll_keep 5\<newline>'' @
     asc ''        }\<newline>'' @
     asc ''    }\<newline>'' @
     asc ''}''\<close>

text \<open>The log messages of \<open>generate_config\<close>.\<close>

definition msg_generating :: ustr where
  \<comment> \<open>source line 172\<close>
  \<open>msg_generating =
     [0x751F, 0x6210, 0x914D, 0x7F6E, 0x6587, 0x4EF6] @ asc '': ''\<close>

definition msg_generated :: ustr where
  \<comment> \<open>source line 289\<close>
  \<open>msg_generated =
     [0x914D, 0x7F6E, 0x6587, 0x4EF6, 0x751F, 0x6210, 0x6210, 0x529F]\<close>

definition msg_generate_failed :: ustr where
  \<comment> \<open>source line 293\<close>
  \<open>msg_generate_failed =
     [0x914D, 0x7F6E, 0x6587, 0x4EF6, 0x751F, 0x6210, 0x5931, 0x8D25] @ asc '': ''\<close>

text \<open>
  Source lines 180-185. \<open>domain.split(":")[0]\<close> is the first piece of \<open>split_colon\<close>.
\<close>

definition is_local :: "ustr \<Rightarrow> bool" where
  "is_local domain =
     (startswith domain (asc ''localhost'') \<or>
      startswith domain (asc ''127.'') \<or>
      startswith domain (asc ''0.0.0.0'') \<or>
      (contains domain (asc '':'') \<and>
       hd (split_colon domain) \<in> set [asc ''localhost'', asc ''127.0.0.1'', asc ''0.0.0.0'']))"

text \<open>Source line 219.\<close>

definition is_http_only :: "ustr \<Rightarrow> bool" where
  "is_http_only domain = (contains domain (asc '':80'') \<or> domain = asc '':80'')"

text \<open>The three f-strings: source lines 188-215, 223-251 and 254-283.\<close>

definition local_config :: "ustr \<Rightarrow> ustr \<Rightarrow> int \<Rightarrow> ustr \<Rightarrow> ustr" where
  "local_config domain backend_host backend_port dir =
     domain @ site_open @ backend_host @ asc '':'' @ str_int backend_port @ proxy_options @
     headers_local @ log_open @ dir @ log_close_local"

definition http_config :: "ustr \<Rightarrow> ustr \<Rightarrow> int \<Rightarrow> ustr \<Rightarrow> ustr" where
  "http_config domain backend_host backend_port dir =
     domain @ site_open @ backend_host @ asc '':'' @ str_int backend_port @ proxy_options @
     headers_http @ log_open @ dir @ log_close_prod"

definition https_config :: "ustr \<Rightarrow> ustr \<Rightarrow> int \<Rightarrow> ustr \<Rightarrow> ustr" where
  "https_config domain backend_host backend_port dir =
     domain @ site_open @ backend_host @ asc '':'' @ str_int backend_port @ proxy_options @
     headers_https @ log_open @ dir @ log_close_prod"

text \<open>
  The value of \<open>config_content\<close> at source line 285. \<open>if custom_config:\<close> takes the
  custom text when it is given and not empty. \<open>enable_ssl\<close> is a parameter of the
  source that its body never reads.
\<close>

definition config_content :: "ctx \<Rightarrow> ustr \<Rightarrow> int \<Rightarrow> ustr \<Rightarrow> bool \<Rightarrow> ustr option \<Rightarrow> ustr" where
  "config_content cx domain backend_port backend_host enable_ssl custom_config =
     (case custom_config of
        Some c \<Rightarrow> if c \<noteq> [] then c
                  else if is_local domain then local_config domain backend_host backend_port (config_dir cx)
                  else if is_http_only domain then http_config domain backend_host backend_port (config_dir cx)
                  else https_config domain backend_host backend_port (config_dir cx)
      | None \<Rightarrow> if is_local domain then local_config domain backend_host backend_port (config_dir cx)
                else if is_http_only domain then http_config domain backend_host backend_port (config_dir cx)
                else https_config domain backend_host backend_port (config_dir cx))"

text \<open>
  \<open>generate_config\<close>: logs, writes the file, logs; an exception of the write is logged
  and the function returns \<open>False\<close>.
\<close>

definition generate_config ::
  "ctx \<Rightarrow> ustr \<Rightarrow> int \<Rightarrow> ustr \<Rightarrow> bool \<Rightarrow> ustr option \<Rightarrow> state \<Rightarrow> bool \<times> state" where
  "generate_config cx domain backend_port backend_host enable_ssl custom_config s =
     (let s1 = logger cx INFO (msg_generating @ path_in_dir cx (asc ''Caddyfile'')) s;
          content = config_content cx domain backend_port backend_host enable_ssl custom_config
      in case write_error (machine s1) of
           Some e \<Rightarrow> (False, logger cx ERROR (msg_generate_failed @ exn_text e) s1)
         | None \<Rightarrow>
             (True, logger cx INFO msg_generated
                      (s1\<lparr>machine := (machine s1)\<lparr>config_file := Some content\<rparr>\<rparr>)))"

section \<open>Starting and stopping the service\<close>

subsection \<open>Operating-system calls\<close>

definition find_proc :: "machine \<Rightarrow> nat \<Rightarrow> proc option" where
  "find_proc m n = find (\<lambda>p. pid p = n) (procs m)"

text \<open>
  \<open>os.kill(n, sig)\<close> for a positive process id: \<open>ProcessLookupError\<close> when no such
  process exists, \<open>PermissionError\<close> when it belongs to someone else. Signal 0 only
  probes; SIGKILL (9) ends the process; SIGTERM (15) is delivered and left pending.
\<close>

definition os_kill :: "nat \<Rightarrow> nat \<Rightarrow> machine \<Rightarrow> exn + machine" where
  "os_kill n sig m =
     (case find_proc m n of
        None \<Rightarrow> Inl (Exn ProcessLookupError (asc ''[Errno 3] No such process''))
      | Some p \<Rightarrow>
          if \<not> owned p then Inl (Exn PermissionError (asc ''[Errno 1] Operation not permitted''))
          else if sig = 9 then Inr (m\<lparr>procs := filter (\<lambda>q. pid q \<noteq> n) (procs m)\<rparr>)
          else if sig = 15 then
            Inr (m\<lparr>procs := map (\<lambda>q. if pid q = n then q\<lparr>term_pending := True\<rparr> else q) (procs m)\<rparr>)
          else Inr m)"

text \<open>The call as the deployer issues it: recorded, then carried out.\<close>

definition kill :: "nat \<Rightarrow> nat \<Rightarrow> state \<Rightarrow> exn option \<times> state" where
  "kill n sig s =
     (case os_kill n sig (machine s) of
        Inl e \<Rightarrow> (Some e, s\<lparr>calls := calls s @ [Kill n sig]\<rparr>)
      | Inr m \<Rightarrow> (None, s\<lparr>machine := m, calls := calls s @ [Kill n sig]\<rparr>))"

text \<open>\<open>taskkill /F /PID n\<close>: forced; its exit status is not looked at.\<close>

definition taskkill_pid :: "nat \<Rightarrow> state \<Rightarrow> state" where
  "taskkill_pid n s =
     s\<lparr>machine := (machine s)\<lparr>procs := filter (\<lambda>q. \<not> (pid q = n \<and> owned q)) (procs (machine s))\<rparr>,
       calls := calls s @ [TaskkillPid n]\<rparr>"

text \<open>
  \<open>_cleanup_caddy_processes\<close> (source lines 452-466). Exceptions are swallowed.
  On Windows: \<open>tasklist\<close>, and \<open>taskkill /F /IM caddy.exe\<close> when it shows such an image;
  the deployer runs under the image of the Python interpreter and is not touched.
  Elsewhere: \<open>pkill -f caddy\<close>, which delivers SIGTERM to every process whose command
  line matches \<open>caddy\<close>, the calling \<open>pkill\<close> excepted. When the deployer's own command
  line matches, the signal ends the deployer (the script installs no handler) while it
  waits for \<open>pkill\<close>: nothing after source line 464 is executed. The first component of
  the result says whether the deployer is still there.
\<close>

definition cleanup_caddy_processes :: "ctx \<Rightarrow> state \<Rightarrow> bool \<times> state" where
  "cleanup_caddy_processes cx s =
     (if system cx = Windows then
        (if \<exists>p \<in> set (procs (machine s)). named_caddy p then
           (True,
            s\<lparr>machine := (machine s)\<lparr>procs :=
                  filter (\<lambda>q. \<not> (named_caddy q \<and> owned q)) (procs (machine s))\<rparr>,
              calls := calls s @ [TaskkillImage], queries := queries s @ [TasklistImage]\<rparr>)
         else (True, s\<lparr>queries := queries s @ [TasklistImage]\<rparr>))
      else
        (\<not> self_named_caddy cx,
         s\<lparr>machine := (machine s)\<lparr>procs :=
               map (\<lambda>q. if named_caddy q \<and> owned q then q\<lparr>term_pending := True\<rparr> else q)
                 (procs (machine s))\<rparr>,
           calls := calls s @ [Pkill]\<rparr>))"

subsection \<open>\<open>is_running\<close> (source lines 468-514)\<close>

text \<open>
  \<open>_check_pid_file_process\<close>. On Windows \<open>str(pid) in result.stdout\<close> of
  \<open>tasklist /FI "PID eq n"\<close>: the table row is there exactly when the process is.
  Elsewhere \<open>os.kill(pid, 0)\<close>: \<open>ProcessLookupError\<close> gives \<open>False\<close>, and so does every
  other exception, by the outer handler.
\<close>

definition check_pid_file_process :: "ctx \<Rightarrow> machine \<Rightarrow> bool" where
  "check_pid_file_process cx m =
     (case pid_file m of
        NoFile \<Rightarrow> False
      | Unparsable t \<Rightarrow> False
      | Pid n \<Rightarrow>
          if system cx = Windows then find_proc m n \<noteq> None
          else (case os_kill n 0 m of Inr m' \<Rightarrow> True | Inl e \<Rightarrow> False))"

text \<open>\<open>_check_any_caddy_process\<close>: \<open>tasklist\<close> by image name, or \<open>pgrep -f\<close>.\<close>

definition check_any_caddy_process :: "ctx \<Rightarrow> machine \<Rightarrow> bool" where
  "check_any_caddy_process cx m =
     (if system cx = Windows then (\<exists>p \<in> set (procs m). named_caddy p)
      else (\<exists>p \<in> set (procs m). runs_caddy p))"

definition is_running :: "ctx \<Rightarrow> machine \<Rightarrow> bool" where
  "is_running cx m = (if check_pid_file_process cx m then True else check_any_caddy_process cx m)"

text \<open>
  The questions these functions put to the operating system: \<open>os.kill(pid, 0)\<close> or
  \<open>tasklist /FI "PID eq n"\<close> when the PID file holds a process id, then, unless that
  process is found, \<open>pgrep\<close> or \<open>tasklist\<close> by image name.
\<close>

definition pid_queries :: "ctx \<Rightarrow> machine \<Rightarrow> query list" where
  "pid_queries cx m =
     (case pid_file m of
        NoFile \<Rightarrow> []
      | Unparsable t \<Rightarrow> []
      | Pid n \<Rightarrow> [if system cx = Windows then TasklistPid n else ProbePid n])"

definition caddy_query :: "ctx \<Rightarrow> query" where
  "caddy_query cx = (if system cx = Windows then TasklistImage else Pgrep)"

definition is_running_queries :: "ctx \<Rightarrow> machine \<Rightarrow> query list" where
  "is_running_queries cx m =
     pid_queries cx m @ (if check_pid_file_process cx m then [] else [caddy_query cx])"

text \<open>\<open>_get_running_caddy_processes\<close>: the process ids found.\<close>

definition get_running_caddy_processes :: "ctx \<Rightarrow> machine \<Rightarrow> nat list" where
  "get_running_caddy_processes cx m =
     (if system cx = Windows then map pid (filter named_caddy (procs m))
      else map pid (filter runs_caddy (procs m)))"

subsection \<open>Log messages\<close>

definition msg_deploy_start :: ustr where
  \<comment> \<open>source line 323\<close>
  \<open>msg_deploy_start =
     [0x5F00, 0x59CB, 0x90E8, 0x7F72] @ asc ''Caddy'' @ [0x670D, 0x52A1] @ asc ''...''\<close>

definition msg_conflict :: ustr where
  \<comment> \<open>source line 328\<close>
  \<open>msg_conflict =
     [0x68C0, 0x6D4B, 0x5230, 0x7AEF, 0x53E3, 0x51B2, 0x7A81] @ asc '':''\<close>

definition msg_admin_busy :: ustr where
  \<comment> \<open>source line 330\<close>
  \<open>msg_admin_busy =
     asc ''  '' @ [0x7BA1, 0x7406, 0x7AEF, 0x53E3] @ asc '' 2019 '' @ [0x88AB, 0x5360, 0x7528] @
     asc '': ''\<close>

definition msg_port_a :: ustr where
  \<comment> \<open>source line 332\<close>
  \<open>msg_port_a =
     asc ''  '' @ [0x7AEF, 0x53E3] @ asc '' ''\<close>

definition msg_port_b :: ustr where
  \<comment> \<open>source line 332\<close>
  \<open>msg_port_b =
     asc '' '' @ [0x88AB, 0x5360, 0x7528] @ asc '': ''\<close>

definition msg_found_a :: ustr where
  \<comment> \<open>source line 337\<close>
  \<open>msg_found_a =
     [0x68C0, 0x6D4B, 0x5230] @ asc '' ''\<close>

definition msg_found_b :: ustr where
  \<comment> \<open>source line 337\<close>
  \<open>msg_found_b =
     asc '' '' @ [0x4E2A] @ asc ''Caddy'' @
     [0x8FDB, 0x7A0B, 0x6B63, 0x5728, 0x8FD0, 0x884C, 0xFF0C, 0x5C06, 0x505C, 0x6B62, 0x5B83, 0x4EEC]\<close>

definition msg_foreign :: ustr where
  \<comment> \<open>source line 341\<close>
  \<open>msg_foreign =
     [0x7AEF, 0x53E3, 0x88AB, 0x975E] @ asc ''Caddy'' @ [0x8FDB, 0x7A0B, 0x5360, 0x7528]\<close>

definition msg_advice :: ustr where
  \<comment> \<open>source line 342\<close>
  \<open>msg_advice =
     [0x5EFA, 0x8BAE, 0x505C, 0x6B62, 0x5360, 0x7528, 0x7AEF, 0x53E3, 0x7684, 0x8FDB, 0x7A0B, 0x6216, 0x4FEE, 0x6539, 0x914D, 0x7F6E]\<close>

definition msg_continue :: ustr where
  \<comment> \<open>source line 343\<close>
  \<open>msg_continue =
     [0x5C1D, 0x8BD5, 0x7EE7, 0x7EED, 0x90E8, 0x7F72] @ asc ''...''\<close>

definition msg_already_running :: ustr where
  \<comment> \<open>source line 347\<close>
  \<open>msg_already_running =
     asc ''Caddy'' @
     [0x670D, 0x52A1, 0x5DF2, 0x5728, 0x8FD0, 0x884C, 0xFF0C, 0x5148, 0x505C, 0x6B62, 0x670D, 0x52A1]\<close>

definition msg_command :: ustr where
  \<comment> \<open>source line 358\<close>
  \<open>msg_command =
     [0x542F, 0x52A8, 0x547D, 0x4EE4] @ asc '': ''\<close>

definition msg_waiting :: ustr where
  \<comment> \<open>source line 383\<close>
  \<open>msg_waiting =
     [0x7B49, 0x5F85] @ asc ''Caddy'' @ [0x542F, 0x52A8] @ asc ''...''\<close>

definition msg_started_a :: ustr where
  \<comment> \<open>source line 388\<close>
  \<open>msg_started_a =
     asc ''Caddy'' @ [0x670D, 0x52A1, 0x542F, 0x52A8, 0x6210, 0x529F] @ asc '' (PID: ''\<close>

definition msg_start_failed :: ustr where
  \<comment> \<open>source line 394\<close>
  \<open>msg_start_failed =
     asc ''Caddy'' @ [0x542F, 0x52A8, 0x5931, 0x8D25] @ asc '': ''\<close>

definition msg_timeout_a :: ustr where
  \<comment> \<open>source line 399\<close>
  \<open>msg_timeout_a =
     asc ''Caddy'' @ [0x670D, 0x52A1, 0x542F, 0x52A8, 0x8D85, 0x65F6] @ asc '' (''\<close>

definition msg_timeout_b :: ustr where
  \<comment> \<open>source line 399\<close>
  \<open>msg_timeout_b =
     [0x79D2] @ asc '')''\<close>

definition msg_recent :: ustr where
  \<comment> \<open>source line 402\<close>
  \<open>msg_recent =
     [0x6700, 0x8FD1, 0x7684, 0x65E5, 0x5FD7] @ asc '':''\<close>

definition msg_deploy_failed :: ustr where
  \<comment> \<open>source line 408\<close>
  \<open>msg_deploy_failed =
     [0x90E8, 0x7F72, 0x5931, 0x8D25] @ asc '': ''\<close>

definition msg_stopping :: ustr where
  \<comment> \<open>source line 414\<close>
  \<open>msg_stopping =
     [0x505C, 0x6B62] @ asc ''Caddy'' @ [0x670D, 0x52A1] @ asc ''...''\<close>

definition msg_not_running :: ustr where
  \<comment> \<open>source line 417\<close>
  \<open>msg_not_running =
     asc ''Caddy'' @ [0x670D, 0x52A1, 0x672A, 0x8FD0, 0x884C]\<close>

definition msg_killing :: ustr where
  \<comment> \<open>source line 425\<close>
  \<open>msg_killing =
     [0x7EC8, 0x6B62, 0x8FDB, 0x7A0B] @ asc '' PID: ''\<close>

definition msg_stopped :: ustr where
  \<comment> \<open>source line 445\<close>
  \<open>msg_stopped =
     asc ''Caddy'' @ [0x670D, 0x52A1, 0x505C, 0x6B62, 0x6210, 0x529F]\<close>

definition msg_stop_failed :: ustr where
  \<comment> \<open>source line 449\<close>
  \<open>msg_stop_failed =
     [0x505C, 0x6B62, 0x670D, 0x52A1, 0x5931, 0x8D25] @ asc '': ''\<close>

definition msg_solution :: ustr where
  \<comment> \<open>source line 643\<close>
  \<open>msg_solution =
     [0x89E3, 0x51B3, 0x65B9, 0x6848] @ asc '':''\<close>

definition msg_sol_port1 :: ustr where
  \<comment> \<open>source line 644\<close>
  \<open>msg_sol_port1 =
     asc ''  1. '' @ [0x68C0, 0x67E5, 0x5E76, 0x505C, 0x6B62, 0x5176, 0x4ED6] @ asc ''Caddy'' @
     [0x8FDB, 0x7A0B] @ asc '': python caddy_deployer.py undeploy''\<close>

definition msg_sol_port2 :: ustr where
  \<comment> \<open>source line 645\<close>
  \<open>msg_sol_port2 =
     asc ''  2. '' @ [0x68C0, 0x67E5, 0x5360, 0x7528, 0x7AEF, 0x53E3, 0x7684, 0x8FDB, 0x7A0B] @
     asc '': ss -tlnp | grep :2019''\<close>

definition msg_sol_port3 :: ustr where
  \<comment> \<open>source line 646\<close>
  \<open>msg_sol_port3 =
     asc ''  3. '' @
     [0x4FEE, 0x6539, 0x914D, 0x7F6E, 0x4F7F, 0x7528, 0x4E0D, 0x540C, 0x7AEF, 0x53E3]\<close>

definition msg_sol_perm1 :: ustr where
  \<comment> \<open>source line 649\<close>
  \<open>msg_sol_perm1 =
     asc ''  1. '' @ [0x4F7F, 0x7528] @ asc ''sudo'' @ [0x8FD0, 0x884C, 0x811A, 0x672C] @
     asc '' ('' @ [0x5982, 0x679C, 0x9700, 0x8981, 0x7ED1, 0x5B9A] @ asc ''80/443'' @
     [0x7AEF, 0x53E3] @ asc '')''\<close>

definition msg_sol_perm2 :: ustr where
  \<comment> \<open>source line 650\<close>
  \<open>msg_sol_perm2 =
     asc ''  2. '' @
     [0x6216, 0x4FEE, 0x6539, 0x914D, 0x7F6E, 0x4F7F, 0x7528, 0x975E, 0x7279, 0x6743, 0x7AEF, 0x53E3] @
     asc '' (>1024)''\<close>

definition msg_sol_conf1 :: ustr where
  \<comment> \<open>source line 653\<close>
  \<open>msg_sol_conf1 =
     asc ''  1. '' @ [0x9A8C, 0x8BC1, 0x914D, 0x7F6E, 0x6587, 0x4EF6] @
     asc '': caddy validate --config ~/.caddy/Caddyfile''\<close>

definition msg_sol_conf2 :: ustr where
  \<comment> \<open>source line 654\<close>
  \<open>msg_sol_conf2 =
     asc ''  2. '' @ [0x68C0, 0x67E5, 0x914D, 0x7F6E, 0x6587, 0x4EF6, 0x8BED, 0x6CD5]\<close>

definition err_port_in_use :: ustr where
  \<comment> \<open>source line 626\<close>
  \<open>err_port_in_use =
     [0x7AEF, 0x53E3, 0x88AB, 0x5360, 0x7528]\<close>

definition err_bind_failed :: ustr where
  \<comment> \<open>source line 628\<close>
  \<open>err_bind_failed =
     [0x7AEF, 0x53E3, 0x7ED1, 0x5B9A, 0x5931, 0x8D25]\<close>

definition err_permission :: ustr where
  \<comment> \<open>source line 630\<close>
  \<open>err_permission =
     [0x6743, 0x9650, 0x4E0D, 0x8DB3]\<close>

definition err_config :: ustr where
  \<comment> \<open>source line 632\<close>
  \<open>err_config =
     [0x914D, 0x7F6E, 0x6587, 0x4EF6, 0x9519, 0x8BEF]\<close>

subsection \<open>\<open>undeploy\<close> (source lines 411-450)\<close>

text \<open>
  Source lines 432-437, the branch for systems other than Windows: SIGTERM, two
  seconds of sleep, SIGKILL, all inside one \<open>try\<close> whose handler passes over
  \<open>ProcessLookupError\<close>. Any other exception leaves the block.
\<close>

definition term_then_kill :: "ctx \<Rightarrow> nat \<Rightarrow> state \<Rightarrow> exn option \<times> state" where
  "term_then_kill cx n s =
     (case kill n 15 s of
        (Some e, s1) \<Rightarrow> if is_ProcessLookupError e then (None, s1) else (Some e, s1)
      | (None, s1) \<Rightarrow>
          (case kill n 9 (sleep cx 2 s1) of
             (Some e, s2) \<Rightarrow> if is_ProcessLookupError e then (None, s2) else (Some e, s2)
           | (None, s2) \<Rightarrow> (None, s2)))"

text \<open>\<open>self.pid_file.unlink(missing_ok=True)\<close>.\<close>

definition unlink_pid_file :: "state \<Rightarrow> exn option \<times> state" where
  "unlink_pid_file s =
     (case write_error (machine s) of
        Some e \<Rightarrow> if pid_file (machine s) = NoFile then (None, s) else (Some e, s)
      | None \<Rightarrow> (None, s\<lparr>machine := (machine s)\<lparr>pid_file := NoFile\<rparr>\<rparr>))"

text \<open>
  Source lines 420-440: the part of \<open>undeploy\<close> that deals with the recorded process.
  The result says whether an exception left it.
\<close>

definition stop_recorded :: "ctx \<Rightarrow> state \<Rightarrow> exn option \<times> state" where
  "stop_recorded cx s =
     (case pid_file (machine s) of
        NoFile \<Rightarrow> (None, s)
      | Unparsable t \<Rightarrow> (Some (Exn ValueError t), s)
      | Pid n \<Rightarrow>
          (let s1 = logger cx INFO (msg_killing @ str_nat n) s
           in case (if system cx = Windows then (None, taskkill_pid n s1)
                    else term_then_kill cx n s1) of
                (Some e, s2) \<Rightarrow> (Some e, s2)
              | (None, s2) \<Rightarrow> unlink_pid_file s2))"

text \<open>
  \<open>undeploy\<close>. \<open>None\<close> as its value: the deployer was ended by its own \<open>pkill\<close> and
  returns nothing.
\<close>

definition undeploy :: "ctx \<Rightarrow> state \<Rightarrow> bool option \<times> state" where
  "undeploy cx s =
     (let s0 = logger cx INFO msg_stopping s;
          s1 = ask (is_running_queries cx (machine s0)) s0
      in if \<not> is_running cx (machine s1) then (Some True, logger cx INFO msg_not_running s1)
         else (case stop_recorded cx s1 of
                 (Some e, s2) \<Rightarrow> (Some False, logger cx ERROR (msg_stop_failed @ exn_text e) s2)
               | (None, s2) \<Rightarrow>
                   (case cleanup_caddy_processes cx s2 of
                      (True, s3) \<Rightarrow> (Some True, logger cx INFO msg_stopped s3)
                    | (False, s3) \<Rightarrow> (None, s3))))"

subsection \<open>\<open>_check_startup_errors\<close> (source lines 610-638)\<close>

text \<open>Source lines 623-634 for one line of the log.\<close>

definition classify_line :: "ustr \<Rightarrow> ustr option" where
  "classify_line raw =
     (let line = lower (strip raw)
      in if contains line (asc ''error:'') \<or> contains line (asc ''failed'') then
           (if contains line (asc ''address already in use'') then Some err_port_in_use
            else if contains line (asc ''bind'') \<and> contains line (asc ''address'') then
              Some err_bind_failed
            else if contains line (asc ''permission denied'') then Some err_permission
            else if contains line (asc ''config'') then Some err_config
            else Some (take 100 line))
         else None)"

text \<open>The loop over the lines: the first line that is classified decides.\<close>

fun scan_lines :: "ustr list \<Rightarrow> ustr option" where
  "scan_lines [] = None"
| "scan_lines (l # ls) = (case classify_line l of Some e \<Rightarrow> Some e | None \<Rightarrow> scan_lines ls)"

definition check_startup_errors :: "machine \<Rightarrow> ustr option" where
  "check_startup_errors m =
     (case log_file m of
        None \<Rightarrow> None
      | Some ls \<Rightarrow> scan_lines (if length ls \<ge> 10 then last_n 10 ls else ls))"

text \<open>\<open>_get_recent_logs(n)\<close> (source lines 1088-1097), for a positive \<open>n\<close>.\<close>

definition get_recent_logs :: "nat \<Rightarrow> machine \<Rightarrow> ustr list" where
  "get_recent_logs n m = (case log_file m of None \<Rightarrow> [] | Some ls \<Rightarrow> map strip (last_n n ls))"

text \<open>\<open>_provide_error_solution\<close> (source lines 640-654).\<close>

definition log_all :: "ctx \<Rightarrow> level \<Rightarrow> ustr list \<Rightarrow> state \<Rightarrow> state" where
  "log_all cx lvl msgs s = foldl (\<lambda>s' msg. logger cx lvl msg s') s msgs"

definition provide_error_solution :: "ctx \<Rightarrow> ustr \<Rightarrow> state \<Rightarrow> state" where
  "provide_error_solution cx error_info s =
     (if contains error_info err_port_in_use \<or> contains error_info err_bind_failed then
        log_all cx INFO [msg_solution, msg_sol_port1, msg_sol_port2, msg_sol_port3] s
      else if contains error_info err_permission then
        log_all cx INFO [msg_solution, msg_sol_perm1, msg_sol_perm2] s
      else if contains error_info err_config then
        log_all cx INFO [msg_solution, msg_sol_conf1, msg_sol_conf2] s
      else s)"

subsection \<open>\<open>deploy\<close> (source lines 320-409)\<close>

text \<open>Source lines 327-343: what \<open>deploy\<close> does about occupied ports.\<close>

definition truthy :: "ustr option \<Rightarrow> bool" where
  "truthy v = (case v of None \<Rightarrow> False | Some t \<Rightarrow> t \<noteq> [])"

definition str_opt :: "ustr option \<Rightarrow> ustr" where
  "str_opt v = (case v of None \<Rightarrow> asc ''None'' | Some t \<Rightarrow> t)"

definition conflict_stage :: "ctx \<Rightarrow> conflicts \<Rightarrow> state \<Rightarrow> bool \<times> state" where
  "conflict_stage cx c s =
     (if truthy (admin_port c) \<or> listening_ports c \<noteq> [] then
        (let s1 = logger cx WARNING msg_conflict s;
             s2 = (if truthy (admin_port c)
                   then logger cx WARNING (msg_admin_busy @ str_opt (admin_port c)) s1 else s1);
             s3 = ask [caddy_query cx]
                    (log_all cx WARNING
                       (map (\<lambda>(port, process).
                               msg_port_a @ str_int port @ msg_port_b @ str_opt process)
                          (listening_ports c)) s2);
             found = get_running_caddy_processes cx (machine s3)
         in if found \<noteq> [] then
              (case cleanup_caddy_processes cx
                      (logger cx INFO (msg_found_a @ str_nat (length found) @ msg_found_b) s3) of
                 (True, s4) \<Rightarrow> (True, sleep cx 2 s4)
               | (False, s4) \<Rightarrow> (False, s4))
            else
              (True, logger cx INFO msg_continue
                       (logger cx INFO msg_advice (logger cx WARNING msg_foreign s3))))
      else (True, s))"

text \<open>
  Source lines 346-349: a running service is stopped first; the value of \<open>undeploy\<close> is
  dropped. The first component says whether the deployer is still there.
\<close>

definition stop_if_running :: "ctx \<Rightarrow> state \<Rightarrow> bool \<times> state" where
  "stop_if_running cx s =
     (let s1 = ask (is_running_queries cx (machine s)) s
      in if is_running cx (machine s1) then
           (case undeploy cx (logger cx WARNING msg_already_running s1) of
              (None, s2) \<Rightarrow> (False, s2)
            | (Some r, s2) \<Rightarrow> (True, sleep cx 2 s2))
         else (True, s1))"

text \<open>
  Source lines 352-380: the command is logged, the log file is opened for appending
  (created when missing), the process is started and its id written to the PID file.
\<close>

definition command_line :: "ctx \<Rightarrow> ustr" where
  "command_line cx =
     caddy_path cx @ asc '' run --config '' @ path_in_dir cx (asc ''Caddyfile'') @
     asc '' --pidfile '' @ path_in_dir cx (asc ''caddy.pid'')"

definition open_log_for_append :: "machine \<Rightarrow> exn + machine" where
  "open_log_for_append m =
     (case log_file m of
        Some ls \<Rightarrow> Inr m
      | None \<Rightarrow> (case write_error m of Some e \<Rightarrow> Inl e | None \<Rightarrow> Inr (m\<lparr>log_file := Some []\<rparr>)))"

definition launch :: "ctx \<Rightarrow> state \<Rightarrow> (exn + nat) \<times> state" where
  "launch cx s =
     (let s1 = logger cx INFO (msg_command @ command_line cx) s
      in case open_log_for_append (machine s1) of
           Inl e \<Rightarrow> (Inl e, s1)
         | Inr m1 \<Rightarrow>
             (let s2 = s1\<lparr>machine := m1, calls := calls s1 @ [Popen]\<rparr>
              in case popen cx m1 of
                   Inl e \<Rightarrow> (Inl e, s2)
                 | Inr p \<Rightarrow>
                     (let s3 = s2\<lparr>machine := m1\<lparr>procs := procs m1 @ [p]\<rparr>\<rparr>
                      in case write_error (machine s3) of
                           Some e \<Rightarrow> (Inl e, s3)
                         | None \<Rightarrow>
                             (Inr (pid p),
                              s3\<lparr>machine := (machine s3)\<lparr>pid_file := Pid (pid p)\<rparr>\<rparr>))))"

text \<open>
  Source lines 385-396: the polling loop, with the number of iterations left. \<open>None\<close>
  means the loop ran out. \<open>if error_info:\<close> holds for a text that is not empty.
\<close>

fun poll :: "ctx \<Rightarrow> nat \<Rightarrow> nat \<Rightarrow> state \<Rightarrow> bool option \<times> state" where
  "poll cx new_pid 0 s = (None, s)"
| "poll cx new_pid (Suc k) s =
     (let s0 = sleep cx 1 s;
          s1 = ask (pid_queries cx (machine s0)) s0
      in if check_pid_file_process cx (machine s1) then
           (Some True, logger cx INFO (msg_started_a @ str_nat new_pid @ asc '')'') s1)
         else
           (case check_startup_errors (machine s1) of
              None \<Rightarrow> poll cx new_pid k s1
            | Some error_info \<Rightarrow>
                if error_info \<noteq> [] then
                  (Some False,
                   provide_error_solution cx error_info
                     (logger cx ERROR (msg_start_failed @ error_info) s1))
                else poll cx new_pid k s1))"

text \<open>Source lines 398-405: the loop ran out.\<close>

definition max_wait :: nat where
  "max_wait = 10"

definition report_timeout :: "ctx \<Rightarrow> state \<Rightarrow> state" where
  "report_timeout cx s =
     (let s1 = logger cx ERROR (msg_timeout_a @ str_nat max_wait @ msg_timeout_b) s;
          recent_logs = get_recent_logs 10 (machine s1)
      in if recent_logs \<noteq> [] then
           log_all cx ERROR (map (\<lambda>l. asc ''  '' @ l) (last_n 5 recent_logs))
             (logger cx ERROR msg_recent s1)
         else s1)"

definition wait_for_start :: "ctx \<Rightarrow> nat \<Rightarrow> state \<Rightarrow> bool \<times> state" where
  "wait_for_start cx new_pid s =
     (case poll cx new_pid max_wait (logger cx INFO msg_waiting s) of
        (Some r, s1) \<Rightarrow> (r, s1)
      | (None, s1) \<Rightarrow> (False, report_timeout cx s1))"

text \<open>\<open>deploy\<close>. \<open>None\<close> as its value: the deployer was ended on the way.\<close>

definition deploy :: "ctx \<Rightarrow> state \<Rightarrow> bool option \<times> state" where
  "deploy cx s =
     (let s1 = logger cx INFO msg_deploy_start s
      in case port_conflicts cx (machine s1) of
           Inl e \<Rightarrow> (Some False, logger cx ERROR (msg_deploy_failed @ exn_text e) s1)
         | Inr c \<Rightarrow>
             (case conflict_stage cx c s1 of
                (False, s2) \<Rightarrow> (None, s2)
              | (True, s2) \<Rightarrow>
                  (case stop_if_running cx s2 of
                     (False, s3) \<Rightarrow> (None, s3)
                   | (True, s3) \<Rightarrow>
                       (case launch cx s3 of
                          (Inl e, s4) \<Rightarrow>
                            (Some False, logger cx ERROR (msg_deploy_failed @ exn_text e) s4)
                        | (Inr new_pid, s4) \<Rightarrow>
                            (case wait_for_start cx new_pid s4 of (r, s5) \<Rightarrow> (Some r, s5))))))"

section \<open>The health check (source lines 676-910)\<close>

text \<open>
  The result of one check is a dictionary with the keys \<open>status\<close>, \<open>message\<close> and
  \<open>required\<close>, and in some branches one more key; every dictionary that the six
  functions build holds all three, so the defaults of \<open>check.get\<close> never apply. Status
  words and the names of the checks are ASCII literals and kept as HOL strings.
  Left out: \<open>response_time\<close> (a float) and the dates and names of a certificate.
  The checks write to no file but the log and signal no process; the report is given
  as a function of the machine and of what the probes answer, without the trace of
  the questions asked and without the log records of \<open>validate_config\<close>.
\<close>

record http_test =
  endpoint :: ustr
  success :: bool
  status_code :: "int option"
  test_message :: ustr

record backend_test =
  backend :: ustr
  reached :: bool
  backend_message :: ustr

record cert_info =
  cert_endpoint :: ustr
  valid :: bool
  days_until_expiry :: "int option"
  cert_error :: "ustr option"

datatype detail = NoDetail | PidDetail "nat option" | PathDetail ustr | PortsDetail "int list"
  | TestsDetail "http_test list" | BackendsDetail "backend_test list"
  | CertificatesDetail "cert_info list"

record check =
  status :: string
  message :: ustr
  required :: bool
  detail :: detail

text \<open>
  What the checks learn from outside the program. \<open>validate_run\<close>: the return code of
  \<open>caddy validate\<close>, or the exception of \<open>subprocess.run\<close>. \<open>connect\<close>:
  \<open>socket.create_connection((host, port))\<close>. \<open>urlopen\<close>: the outcome of the HTTP request.
  \<open>handshake\<close>: the days until the certificate of an endpoint expires, or the exception
  of the TLS connection. \<open>ports_found\<close>, \<open>frontends_found\<close>, \<open>backends_found\<close>: the
  outcome of the \<open>try\<close> body of \<open>_extract_listening_ports\<close>, \<open>_extract_frontend_endpoints\<close>
  and \<open>_extract_backend_endpoints\<close>, which read the configuration file and search it with
  regular expressions: the list built, or the exception raised on the way.
\<close>

datatype http_outcome = Responded int | HttpError int | Failed exn

record probes =
  caddy_exists :: bool
  validate_run :: "exn + int"
  connect :: "ustr \<Rightarrow> int \<Rightarrow> exn + unit"
  urlopen :: "ustr \<Rightarrow> http_outcome"
  handshake :: "ustr \<Rightarrow> exn + int"
  ports_found :: "exn + int list"
  frontends_found :: "exn + ustr list"
  backends_found :: "exn + ustr list"
  now :: ustr
  system_info :: ustr

definition hc_not_running :: ustr where
  \<comment> \<open>source line 712\<close>
  \<open>hc_not_running =
     asc ''Caddy'' @ [0x8FDB, 0x7A0B, 0x672A, 0x8FD0, 0x884C]\<close>

definition hc_running :: ustr where
  \<comment> \<open>source line 723\<close>
  \<open>hc_running =
     asc ''Caddy'' @ [0x8FDB, 0x7A0B, 0x6B63, 0x5E38, 0x8FD0, 0x884C]\<close>

definition hc_process_failed :: ustr where
  \<comment> \<open>source line 730\<close>
  \<open>hc_process_failed =
     [0x8FDB, 0x7A0B, 0x68C0, 0x67E5, 0x5931, 0x8D25] @ asc '': ''\<close>

definition hc_config_missing :: ustr where
  \<comment> \<open>source line 740\<close>
  \<open>hc_config_missing =
     [0x914D, 0x7F6E, 0x6587, 0x4EF6, 0x4E0D, 0x5B58, 0x5728]\<close>

definition hc_config_valid :: ustr where
  \<comment> \<open>source line 748\<close>
  \<open>hc_config_valid =
     [0x914D, 0x7F6E, 0x6587, 0x4EF6, 0x6709, 0x6548]\<close>

definition hc_config_invalid :: ustr where
  \<comment> \<open>source line 755\<close>
  \<open>hc_config_invalid =
     [0x914D, 0x7F6E, 0x6587, 0x4EF6, 0x9A8C, 0x8BC1, 0x5931, 0x8D25]\<close>

definition hc_config_failed :: ustr where
  \<comment> \<open>source line 762\<close>
  \<open>hc_config_failed =
     [0x914D, 0x7F6E, 0x68C0, 0x67E5, 0x5931, 0x8D25] @ asc '': ''\<close>

definition hc_ports_ok :: ustr where
  \<comment> \<open>source line 781\<close>
  \<open>hc_ports_ok =
     [0x7AEF, 0x53E3, 0x76D1, 0x542C, 0x6B63, 0x5E38] @ asc '': ''\<close>

definition hc_ports_none :: ustr where
  \<comment> \<open>source line 788\<close>
  \<open>hc_ports_none =
     [0x6CA1, 0x6709, 0x68C0, 0x6D4B, 0x5230, 0x76D1, 0x542C, 0x7AEF, 0x53E3]\<close>

definition hc_ports_failed :: ustr where
  \<comment> \<open>source line 794\<close>
  \<open>hc_ports_failed =
     [0x7AEF, 0x53E3, 0x68C0, 0x67E5, 0x5931, 0x8D25] @ asc '': ''\<close>

definition hc_front_ok :: ustr where
  \<comment> \<open>source line 814\<close>
  \<open>hc_front_ok =
     [0x524D, 0x7AEF, 0x8FDE, 0x63A5, 0x6B63, 0x5E38] @ asc '' (''\<close>

definition hc_front_bad :: ustr where
  \<comment> \<open>source line 821\<close>
  \<open>hc_front_bad =
     [0x524D, 0x7AEF, 0x8FDE, 0x63A5, 0x5931, 0x8D25]\<close>

definition hc_front_failed :: ustr where
  \<comment> \<open>source line 828\<close>
  \<open>hc_front_failed =
     [0x524D, 0x7AEF, 0x8FDE, 0x901A, 0x6027, 0x68C0, 0x67E5, 0x5931, 0x8D25] @ asc '': ''\<close>

definition hc_back_ok :: ustr where
  \<comment> \<open>source line 853\<close>
  \<open>hc_back_ok =
     [0x540E, 0x7AEF, 0x8FDE, 0x63A5, 0x6B63, 0x5E38] @ asc '' (''\<close>

definition hc_back_bad :: ustr where
  \<comment> \<open>source line 860\<close>
  \<open>hc_back_bad =
     [0x90E8, 0x5206, 0x6216, 0x5168, 0x90E8, 0x540E, 0x7AEF, 0x8FDE, 0x63A5, 0x5931, 0x8D25]\<close>

definition hc_back_failed :: ustr where
  \<comment> \<open>source line 867\<close>
  \<open>hc_back_failed =
     [0x540E, 0x7AEF, 0x8FDE, 0x901A, 0x6027, 0x68C0, 0x67E5, 0x5931, 0x8D25] @ asc '': ''\<close>

definition hc_conn_ok :: ustr where
  \<comment> \<open>source line 845\<close>
  \<open>hc_conn_ok =
     [0x8FDE, 0x63A5, 0x6210, 0x529F]\<close>

definition hc_conn_bad :: ustr where
  \<comment> \<open>source line 845\<close>
  \<open>hc_conn_bad =
     [0x8FDE, 0x63A5, 0x5931, 0x8D25]\<close>

definition hc_no_https :: ustr where
  \<comment> \<open>source line 880\<close>
  \<open>hc_no_https =
     [0x672A, 0x914D, 0x7F6E] @ asc ''HTTPS''\<close>

definition hc_ssl_ok :: ustr where
  \<comment> \<open>source line 894\<close>
  \<open>hc_ssl_ok =
     asc ''SSL'' @ [0x8BC1, 0x4E66, 0x72B6, 0x6001, 0x6B63, 0x5E38]\<close>

definition hc_ssl_bad :: ustr where
  \<comment> \<open>source line 901\<close>
  \<open>hc_ssl_bad =
     [0x90E8, 0x5206] @ asc ''SSL'' @ [0x8BC1, 0x4E66, 0x5B58, 0x5728, 0x95EE, 0x9898]\<close>

definition hc_ssl_failed :: ustr where
  \<comment> \<open>source line 908\<close>
  \<open>hc_ssl_failed =
     asc ''SSL'' @ [0x68C0, 0x67E5, 0x5931, 0x8D25] @ asc '': ''\<close>

definition http_ok_msg :: ustr where
  \<comment> \<open>source line 936\<close>
  \<open>http_ok_msg =
     [0x54CD, 0x5E94, 0x6B63, 0x5E38] @ asc '' (''\<close>

definition http_error_msg :: ustr where
  \<comment> \<open>source line 943\<close>
  \<open>http_error_msg =
     asc ''HTTP'' @ [0x9519, 0x8BEF] @ asc '': ''\<close>

definition http_failed_msg :: ustr where
  \<comment> \<open>source line 949\<close>
  \<open>http_failed_msg =
     [0x8FDE, 0x63A5, 0x5931, 0x8D25] @ asc '': ''\<close>

text \<open>
  A \<open>try\<close> block with one handler \<open>except Exception as e\<close>: the value of the body, or the
  handler's value for the exception.
\<close>

definition catching :: "(exn \<Rightarrow> 'a) \<Rightarrow> exn + 'a \<Rightarrow> 'a" where
  "catching handler body = (case body of Inl e \<Rightarrow> handler e | Inr v \<Rightarrow> v)"

subsection \<open>The helpers, each with its own handler\<close>

text \<open>\<open>validate_config\<close> (source lines 296-318); its log records are left out.\<close>

definition validate_config :: "machine \<Rightarrow> probes \<Rightarrow> bool" where
  "validate_config m pr =
     (if \<not> caddy_exists pr then False
      else if config_file m = None then False
      else (case validate_run pr of Inl e \<Rightarrow> False | Inr code \<Rightarrow> code = 0))"

text \<open>\<open>_is_port_listening\<close> (lines 912-918) catches \<open>OSError\<close> and its subclasses only.\<close>

definition is_port_listening :: "probes \<Rightarrow> ustr \<Rightarrow> int \<Rightarrow> exn + bool" where
  "is_port_listening pr host port =
     (case connect pr host port of
        Inr u \<Rightarrow> Inr True
      | Inl e \<Rightarrow> if is_OSError e then Inr False else Inl e)"

text \<open>\<open>_test_backend_connection\<close> (lines 952-958) catches every exception.\<close>

definition test_backend_connection :: "probes \<Rightarrow> ustr \<Rightarrow> int \<Rightarrow> bool" where
  "test_backend_connection pr host port =
     (case connect pr host port of Inr u \<Rightarrow> True | Inl e \<Rightarrow> False)"

text \<open>\<open>_test_http_endpoint\<close> (lines 920-950).\<close>

definition test_http_endpoint :: "probes \<Rightarrow> ustr \<Rightarrow> http_test" where
  "test_http_endpoint pr ep =
     (case urlopen pr ep of
        Responded code \<Rightarrow>
          \<lparr>endpoint = ep, success = True, status_code = Some code,
           test_message = http_ok_msg @ str_int code @ asc '')''\<rparr>
      | HttpError code \<Rightarrow>
          \<lparr>endpoint = ep, success = False, status_code = Some code,
           test_message = http_error_msg @ str_int code\<rparr>
      | Failed e \<Rightarrow>
          \<lparr>endpoint = ep, success = False, status_code = None,
           test_message = http_failed_msg @ exn_text e\<rparr>)"

text \<open>\<open>_get_ssl_certificate_info\<close> (lines 960-994).\<close>

definition get_ssl_certificate_info :: "probes \<Rightarrow> ustr \<Rightarrow> cert_info" where
  "get_ssl_certificate_info pr ep =
     (case handshake pr ep of
        Inr days \<Rightarrow> \<lparr>cert_endpoint = ep, valid = (days > 0), days_until_expiry = Some days,
                       cert_error = None\<rparr>
      | Inl e \<Rightarrow> \<lparr>cert_endpoint = ep, valid = False, days_until_expiry = None,
                    cert_error = Some (exn_text e)\<rparr>)"

text \<open>
  \<open>_extract_listening_ports\<close> (lines 996-1026): \<open>[80, 443]\<close> on an exception, and
  \<open>list(set(ports))\<close> at the end. \<open>_extract_frontend_endpoints\<close> (lines 1028-1061):
  \<open>['http://localhost']\<close> on an exception. \<open>_extract_backend_endpoints\<close> (lines
  1063-1081): nothing on an exception. \<open>_extract_https_endpoints\<close> (lines 1083-1086).
  \<open>list(set(ports))\<close> is given as \<open>remdups\<close>: the ports without repetition, in the order
  of the list (for 80 and 443 that is the order of the set as well).
\<close>

definition extract_listening_ports :: "probes \<Rightarrow> int list" where
  "extract_listening_ports pr = remdups (catching (\<lambda>e. [80, 443]) (ports_found pr))"

definition extract_frontend_endpoints :: "probes \<Rightarrow> ustr list" where
  "extract_frontend_endpoints pr = catching (\<lambda>e. [asc ''http://localhost'']) (frontends_found pr)"

definition extract_backend_endpoints :: "probes \<Rightarrow> ustr list" where
  "extract_backend_endpoints pr = catching (\<lambda>e. []) (backends_found pr)"

definition extract_https_endpoints :: "probes \<Rightarrow> ustr list" where
  "extract_https_endpoints pr =
     filter (\<lambda>ep. startswith ep (asc ''https://'')) (extract_frontend_endpoints pr)"

text \<open>
  \<open>int(s)\<close> for a text: blanks around it, a sign, decimal digits, single underscores
  between digits. The decimal digits of other scripts, which Python accepts as well,
  raise here.
\<close>

definition is_digit :: "nat \<Rightarrow> bool" where
  "is_digit c = (48 \<le> c \<and> c \<le> 57)"

fun digit_groups_ok :: "ustr \<Rightarrow> bool" where
  "digit_groups_ok [] = False"
| "digit_groups_ok [c] = is_digit c"
| "digit_groups_ok (c # d # cs) =
     (is_digit c \<and> (if d = 95 then digit_groups_ok cs else digit_groups_ok (d # cs)))"

definition digits_value :: "ustr \<Rightarrow> nat" where
  "digits_value ds = foldl (\<lambda>v c. 10 * v + (c - 48)) 0 (filter is_digit ds)"

definition parse_int :: "ustr \<Rightarrow> exn + int" where
  "parse_int raw =
     (let t = strip raw;
          body = (if t \<noteq> [] \<and> (hd t = 45 \<or> hd t = 43) then tl t else t)
      in if digit_groups_ok body then
           Inr (if t \<noteq> [] \<and> hd t = 45 then - int (digits_value body) else int (digits_value body))
         else Inl (Exn ValueError (asc ''invalid literal for int() with base 10'')))"

text \<open>\<open>str(xs)\<close> for a list of integers.\<close>

fun join_ints :: "int list \<Rightarrow> ustr" where
  "join_ints [] = []"
| "join_ints [x] = str_int x"
| "join_ints (x # y # ys) = str_int x @ asc '', '' @ join_ints (y # ys)"

definition str_int_list :: "int list \<Rightarrow> ustr" where
  "str_int_list xs = asc ''['' @ join_ints xs @ asc '']''"

subsection \<open>The six checks\<close>

text \<open>\<open>_check_process\<close> (lines 706-732).\<close>

definition process_handler :: "exn \<Rightarrow> check" where
  "process_handler e = \<lparr>status = ''error'', message = hc_process_failed @ exn_text e,
                         required = True, detail = NoDetail\<rparr>"

definition process_body :: "ctx \<Rightarrow> machine \<Rightarrow> exn + check" where
  "process_body cx m =
     (if \<not> is_running cx m then
        Inr \<lparr>status = ''error'', message = hc_not_running, required = True, detail = NoDetail\<rparr>
      else
        (case pid_file m of
           Unparsable t \<Rightarrow> Inl (Exn ValueError t)
         | NoFile \<Rightarrow>
             Inr \<lparr>status = ''ok'', message = hc_running, required = True, detail = PidDetail None\<rparr>
         | Pid n \<Rightarrow>
             Inr \<lparr>status = ''ok'', message = hc_running, required = True,
                  detail = PidDetail (Some n)\<rparr>))"

definition check_process :: "ctx \<Rightarrow> machine \<Rightarrow> check" where
  "check_process cx m = catching process_handler (process_body cx m)"

text \<open>\<open>_check_config\<close> (lines 734-764).\<close>

definition config_handler :: "exn \<Rightarrow> check" where
  "config_handler e = \<lparr>status = ''error'', message = hc_config_failed @ exn_text e,
                        required = True, detail = NoDetail\<rparr>"

definition config_body :: "ctx \<Rightarrow> machine \<Rightarrow> probes \<Rightarrow> exn + check" where
  "config_body cx m pr =
     (if config_file m = None then
        Inr \<lparr>status = ''error'', message = hc_config_missing, required = True, detail = NoDetail\<rparr>
      else if validate_config m pr then
        Inr \<lparr>status = ''ok'', message = hc_config_valid, required = True,
             detail = PathDetail (path_in_dir cx (asc ''Caddyfile''))\<rparr>
      else
        Inr \<lparr>status = ''error'', message = hc_config_invalid, required = True,
             detail = PathDetail (path_in_dir cx (asc ''Caddyfile''))\<rparr>)"

definition check_config :: "ctx \<Rightarrow> machine \<Rightarrow> probes \<Rightarrow> check" where
  "check_config cx m pr = catching config_handler (config_body cx m pr)"

text \<open>\<open>_check_ports\<close> (lines 766-796); the loop of lines 774-776 first.\<close>

fun listening_among :: "probes \<Rightarrow> int list \<Rightarrow> exn + int list" where
  "listening_among pr [] = Inr []"
| "listening_among pr (port # ports) =
     (case is_port_listening pr (asc ''127.0.0.1'') port of
        Inl e \<Rightarrow> Inl e
      | Inr up \<Rightarrow>
          (case listening_among pr ports of
             Inl e \<Rightarrow> Inl e
           | Inr rest \<Rightarrow> Inr (if up then port # rest else rest)))"

definition ports_handler :: "exn \<Rightarrow> check" where
  "ports_handler e = \<lparr>status = ''error'', message = hc_ports_failed @ exn_text e,
                       required = True, detail = NoDetail\<rparr>"

definition ports_body :: "probes \<Rightarrow> exn + check" where
  "ports_body pr =
     (case listening_among pr (extract_listening_ports pr) of
        Inl e \<Rightarrow> Inl e
      | Inr listening \<Rightarrow>
          if listening \<noteq> [] then
            Inr \<lparr>status = ''ok'', message = hc_ports_ok @ str_int_list listening, required = True,
                 detail = PortsDetail listening\<rparr>
          else
            Inr \<lparr>status = ''error'', message = hc_ports_none, required = True, detail = NoDetail\<rparr>)"

definition check_ports :: "probes \<Rightarrow> check" where
  "check_ports pr = catching ports_handler (ports_body pr)"

text \<open>\<open>_check_frontend_connectivity\<close> (lines 798-830).\<close>

definition frontend_handler :: "exn \<Rightarrow> check" where
  "frontend_handler e = \<lparr>status = ''error'', message = hc_front_failed @ exn_text e,
                          required = True, detail = NoDetail\<rparr>"

definition frontend_body :: "probes \<Rightarrow> exn + check" where
  "frontend_body pr =
     (let results = map (test_http_endpoint pr) (extract_frontend_endpoints pr);
          successful_tests = filter success results
      in if successful_tests \<noteq> [] then
           Inr \<lparr>status = ''ok'',
                message = hc_front_ok @ str_nat (length successful_tests) @ asc ''/'' @
                          str_nat (length results) @ asc '')'',
                required = True, detail = TestsDetail results\<rparr>
         else
           Inr \<lparr>status = ''error'', message = hc_front_bad, required = True,
                detail = TestsDetail results\<rparr>)"

definition check_frontend_connectivity :: "probes \<Rightarrow> check" where
  "check_frontend_connectivity pr = catching frontend_handler (frontend_body pr)"

text \<open>
  \<open>_check_backend_connectivity\<close> (lines 832-869). Line 840, \<open>host, port =
  backend.split(':')\<close>, raises unless there are exactly two pieces; line 841 raises
  unless the second is an integer.
\<close>

definition test_backend :: "probes \<Rightarrow> ustr \<Rightarrow> exn + backend_test" where
  "test_backend pr b =
     (case split_colon b of
        [host, port] \<Rightarrow>
          (case parse_int port of
             Inl e \<Rightarrow> Inl e
           | Inr n \<Rightarrow>
               Inr \<lparr>backend = b, reached = test_backend_connection pr host n,
                    backend_message = (if test_backend_connection pr host n then hc_conn_ok
                                       else hc_conn_bad)\<rparr>)
      | pieces \<Rightarrow> Inl (Exn ValueError (asc ''wrong number of values to unpack'')))"

fun test_backends :: "probes \<Rightarrow> ustr list \<Rightarrow> exn + backend_test list" where
  "test_backends pr [] = Inr []"
| "test_backends pr (b # bs) =
     (case test_backend pr b of
        Inl e \<Rightarrow> Inl e
      | Inr r \<Rightarrow> (case test_backends pr bs of Inl e \<Rightarrow> Inl e | Inr rs \<Rightarrow> Inr (r # rs)))"

definition backend_handler :: "exn \<Rightarrow> check" where
  "backend_handler e = \<lparr>status = ''warning'', message = hc_back_failed @ exn_text e,
                         required = False, detail = NoDetail\<rparr>"

definition backend_body :: "probes \<Rightarrow> exn + check" where
  "backend_body pr =
     (case test_backends pr (extract_backend_endpoints pr) of
        Inl e \<Rightarrow> Inl e
      | Inr results \<Rightarrow>
          if filter reached results \<noteq> [] then
            Inr \<lparr>status = ''ok'',
                 message = hc_back_ok @ str_nat (length (filter reached results)) @ asc ''/'' @
                           str_nat (length results) @ asc '')'',
                 required = True, detail = BackendsDetail results\<rparr>
          else
            Inr \<lparr>status = ''warning'', message = hc_back_bad, required = False,
                 detail = BackendsDetail results\<rparr>)"

definition check_backend_connectivity :: "probes \<Rightarrow> check" where
  "check_backend_connectivity pr = catching backend_handler (backend_body pr)"

text \<open>\<open>_check_ssl_status\<close> (lines 871-910).\<close>

definition ssl_handler :: "exn \<Rightarrow> check" where
  "ssl_handler e = \<lparr>status = ''info'', message = hc_ssl_failed @ exn_text e,
                     required = False, detail = NoDetail\<rparr>"

definition ssl_body :: "probes \<Rightarrow> exn + check" where
  "ssl_body pr =
     (let https_endpoints = extract_https_endpoints pr
      in if https_endpoints = [] then
           Inr \<lparr>status = ''info'', message = hc_no_https, required = False, detail = NoDetail\<rparr>
         else
           (let results = map (get_ssl_certificate_info pr) https_endpoints
            in if length (filter valid results) = length results then
                 Inr \<lparr>status = ''ok'', message = hc_ssl_ok, required = False,
                      detail = CertificatesDetail results\<rparr>
               else
                 Inr \<lparr>status = ''warning'', message = hc_ssl_bad, required = False,
                      detail = CertificatesDetail results\<rparr>))"

definition check_ssl_status :: "probes \<Rightarrow> check" where
  "check_ssl_status pr = catching ssl_handler (ssl_body pr)"

subsection \<open>\<open>health_check\<close> (lines 676-704)\<close>

text \<open>
  Lines 692-698: \<open>all(check.get('status') == 'ok' for check in ... if
  check.get('required', True))\<close>, and the word for it.
\<close>

definition all_checks_passed :: "check list \<Rightarrow> bool" where
  "all_checks_passed cs = list_all (\<lambda>c. status c = ''ok'') (filter required cs)"

definition overall :: "check list \<Rightarrow> string" where
  "overall cs = (if all_checks_passed cs then ''healthy'' else ''unhealthy'')"

record report =
  timestamp :: ustr
  overall_status :: string
  checks :: "(string \<times> check) list"
  logs :: "ustr list option"
  info :: "ustr option"

definition run_checks :: "ctx \<Rightarrow> machine \<Rightarrow> probes \<Rightarrow> (string \<times> check) list" where
  "run_checks cx m pr =
     [(''process'', check_process cx m),
      (''config'', check_config cx m pr),
      (''ports'', check_ports pr),
      (''frontend'', check_frontend_connectivity pr),
      (''backend'', check_backend_connectivity pr),
      (''ssl'', check_ssl_status pr)]"

definition health_check :: "ctx \<Rightarrow> machine \<Rightarrow> probes \<Rightarrow> bool \<Rightarrow> report" where
  "health_check cx m pr detailed =
     \<lparr>timestamp = now pr,
      overall_status = overall (map snd (run_checks cx m pr)),
      checks = run_checks cx m pr,
      logs = (if detailed then Some (get_recent_logs 50 m) else None),
      info = (if detailed then Some (system_info pr) else None)\<rparr>"

section \<open>Concrete scenarios\<close>

text \<open>
  A Unix machine on which nothing else happens: time passing changes nothing, and
  \<open>Popen\<close> starts process 4242. The directory is \<open>/home/u/.caddy\<close>.
\<close>

definition new_proc :: proc where
  "new_proc = \<lparr>pid = 4242, runs_caddy = True, named_caddy = True, owned = True,
               term_pending = False\<rparr>"

definition quiet_ctx :: ctx where
  "quiet_ctx = \<lparr>system = Unix, caddy_path = asc ''/usr/bin/caddy'',
                 config_dir = asc ''/home/u/.caddy'', tick = (\<lambda>m. m),
                 popen = (\<lambda>m. Inr new_proc),
                 port_conflicts = (\<lambda>m. Inr \<lparr>admin_port = None, listening_ports = []\<rparr>),
                 asctime = (\<lambda>t. asc ''t+'' @ str_nat t), self_named_caddy = False\<rparr>"

definition empty_machine :: machine where
  "empty_machine = \<lparr>config_file = None, pid_file = NoFile, log_file = Some [], procs = [],
                     write_error = None\<rparr>"

definition start_state :: "machine \<Rightarrow> state" where
  "start_state m = \<lparr>machine = m, calls = [], queries = [], console = [], clock = 0\<rparr>"

text \<open>The header line the specification names.\<close>

definition hsts_header :: ustr where
  \<open>hsts_header = asc ''Strict-Transport-Security "max-age=31536000; includeSubDomains"''\<close>

definition hsts_name :: ustr where
  "hsts_name = asc ''Strict-Transport-Security''"

text \<open>The three lines of the local header profile.\<close>

definition x_frame_sameorigin :: ustr where
  \<open>x_frame_sameorigin = asc ''X-Frame-Options "SAMEORIGIN"''\<close>

definition x_content_nosniff :: ustr where
  \<open>x_content_nosniff = asc ''X-Content-Type-Options "nosniff"''\<close>

definition minus_server :: ustr where
  "minus_server = asc ''-Server''"

text \<open>
  A machine on which Caddy runs as process 77, started by this user and recorded in
  the PID file, and a context in which a process that got SIGTERM is gone a second
  later.
\<close>

definition old_proc :: proc where
  "old_proc = \<lparr>pid = 77, runs_caddy = True, named_caddy = True, owned = True,
               term_pending = False\<rparr>"

definition running_machine :: machine where
  "running_machine = \<lparr>config_file = Some [], pid_file = Pid 77, log_file = Some [],
                       procs = [old_proc], write_error = None\<rparr>"

definition graceful_ctx :: ctx where
  "graceful_ctx = quiet_ctx\<lparr>tick := (\<lambda>m. m\<lparr>procs := filter (\<lambda>q. \<not> term_pending q) (procs m)\<rparr>)\<rparr>"

text \<open>
  Words for the statements about the polling loop. A log line is \<open>flagged\<close> when source
  line 624 lets it through. An iteration is \<open>silent\<close> on a machine when neither of
  its two tests resolves there: the recorded process is not alive and no startup error
  is found. \<open>slept cx j s\<close> is the state after \<open>j\<close> silent iterations.
\<close>

definition flagged :: "ustr \<Rightarrow> bool" where
  "flagged raw = (contains (lower (strip raw)) (asc ''error:'') \<or>
                  contains (lower (strip raw)) (asc ''failed''))"

definition silent :: "ctx \<Rightarrow> machine \<Rightarrow> bool" where
  "silent cx m = (\<not> check_pid_file_process cx m \<and> \<not> truthy (check_startup_errors m))"

definition slept :: "ctx \<Rightarrow> nat \<Rightarrow> state \<Rightarrow> state" where
  "slept cx j s =
     s\<lparr>machine := (tick cx ^^ j) (machine s), calls := calls s @ replicate j (Sleep 1),
       queries := queries s @
                  concat (map (\<lambda>i. pid_queries cx ((tick cx ^^ i) (machine s))) [1..<Suc j]),
       clock := clock s + j\<rparr>"

text \<open>
  Machines for the loop. On \<open>crashed_machine\<close> the started process 4242 is gone and
  Caddy's last word is an error line; on \<open>mute_machine\<close> the same, but the line lacks
  the word \<open>Error:\<close>; on \<open>chatty_machine\<close> the process is gone and the log holds seven
  harmless lines.
\<close>

definition error_line :: ustr where
  "error_line = asc ''Error: listen tcp :80: bind: address already in use''"

definition bare_line :: ustr where
  "bare_line = asc ''listen tcp :80: bind: address already in use''"

definition crashed_machine :: machine where
  "crashed_machine = \<lparr>config_file = Some [], pid_file = Pid 4242, log_file = Some [error_line],
                       procs = [], write_error = None\<rparr>"

definition chatty_machine :: machine where
  "chatty_machine = \<lparr>config_file = Some [], pid_file = Pid 4242,
                      log_file = Some [asc ''a'', asc ''b'', asc ''c'', asc ''d'', asc ''e'',
                                       asc ''f'', asc ''g''],
                      procs = [], write_error = None\<rparr>"

definition mute_machine :: machine where
  "mute_machine = \<lparr>config_file = Some [], pid_file = Pid 4242, log_file = Some [bare_line],
                    procs = [], write_error = None\<rparr>"

text \<open>
  A machine on which Caddy runs as process 77 of another user (started with
  \<open>sudo\<close>, say): the deployer sees it but may not signal it.
\<close>

definition root_proc :: proc where
  "root_proc = \<lparr>pid = 77, runs_caddy = True, named_caddy = True, owned = False,
                term_pending = False\<rparr>"

definition foreign_machine :: machine where
  "foreign_machine = \<lparr>config_file = Some [], pid_file = Pid 77, log_file = Some [],
                       procs = [root_proc], write_error = None\<rparr>"

text \<open>
  A listen spec that starts with \<open>localhost\<close> and carries a site block of its own.
\<close>

definition crafted_domain :: ustr where
  \<open>crafted_domain =
     asc ''localhost:80 {\<newline>'' @
     asc ''    header Strict-Transport-Security "max-age=31536000; includeSubDomains"\<newline>'' @
     asc ''}\<newline>'' @
     asc ''localhost:81''\<close>

text \<open>
  The deployer started from its script, \<open>python caddy_deployer.py deploy\<close>: its own
  command line matches \<open>caddy\<close>.
\<close>

definition script_ctx :: ctx where
  "script_ctx = quiet_ctx\<lparr>self_named_caddy := True\<rparr>"

text \<open>
  Outcomes for the health check. \<open>up_probes\<close>: the local configuration
  \<open>localhost:80 { ... reverse_proxy localhost:3000 ... }\<close>, with everything answering.
  \<open>unreadable_probes\<close>: Caddy serves ports 80 and 443, but reading the configuration file
  raises (it is not UTF-8) and \<open>caddy validate\<close> returns 1. \<open>odd_probes\<close>: the
  configuration names port 99999, for which \<open>socket.create_connection\<close> raises
  \<open>OverflowError\<close>, and the backend \<open>backend\<close>, without a port; its site addresses cannot
  be read. \<open>garbled_machine\<close>: Caddy runs, and the PID file holds no number.
\<close>

definition up_probes :: probes where
  "up_probes = \<lparr>caddy_exists = True, validate_run = Inr 0,
                 connect = (\<lambda>host port. Inr ()), urlopen = (\<lambda>ep. Responded 200),
                 handshake = (\<lambda>ep. Inr 90), ports_found = Inr [80],
                 frontends_found = Inr [asc ''http://localhost:80''],
                 backends_found = Inr [asc ''localhost:3000''],
                 now = asc ''2024-01-01T00:00:00'', system_info = []\<rparr>"

definition undecodable :: exn where
  "undecodable = Exn ValueError (asc ''invalid start byte'')"

definition unreadable_probes :: probes where
  "unreadable_probes = \<lparr>caddy_exists = True, validate_run = Inr 1,
                         connect = (\<lambda>host port. Inr ()), urlopen = (\<lambda>ep. Responded 200),
                         handshake = (\<lambda>ep. Inl undecodable), ports_found = Inl undecodable,
                         frontends_found = Inl undecodable, backends_found = Inl undecodable,
                         now = asc ''2024-01-01T00:00:00'', system_info = []\<rparr>"

definition port_overflow :: exn where
  "port_overflow = Exn OtherException (asc ''port must be 0-65535.'')"

definition odd_probes :: probes where
  "odd_probes = up_probes\<lparr>connect := (\<lambda>host port. if port > 65535 then Inl port_overflow
                                                    else Inr ()),
                          ports_found := Inr [99999], frontends_found := Inl undecodable,
                          backends_found := Inr [asc ''backend'']\<rparr>"

definition garbled_machine :: machine where
  "garbled_machine = running_machine\<lparr>pid_file := Unparsable (asc ''invalid literal'')\<rparr>"

section \<open>Facts about text\<close>

declare str_nat.simps [simp del]

lemma contains_prefix: "contains (s @ b) s"
proof (cases "s @ b")
  case Nil
  then show ?thesis by simp
next
  case (Cons c cs)
  have "take (length s) (s @ b) = s" by simp
  with Cons show ?thesis by simp
qed

lemma contains_append_right: "contains b s \<Longrightarrow> contains (a @ b) s"
  by (induction a) auto

lemma contains_mid: "contains (a @ s @ b) s"
  by (rule contains_append_right) (rule contains_prefix)

lemma take_append_le: "n \<le> length xs \<Longrightarrow> take n (xs @ b) = take n xs"
  by simp

lemma take_append_ge: "length xs \<le> n \<Longrightarrow> take n (xs @ b) = xs @ take (n - length xs) b"
  by simp

lemma contains_append_left: "contains a s \<Longrightarrow> contains (a @ b) s"
proof (induction a)
  case Nil
  then show ?case by (simp add: contains_prefix[of "[]", simplified])
next
  case (Cons c cs)
  from Cons.prems have "take (length s) (c # cs) = s \<or> contains cs s" by simp
  then show ?case
  proof
    assume t: "take (length s) (c # cs) = s"
    have "length (take (length s) (c # cs)) \<le> length (c # cs)"
      by (simp del: take_Suc_Cons)
    with t have "length s \<le> length (c # cs)" by simp
    then have "take (length s) ((c # cs) @ b) = take (length s) (c # cs)"
      by (rule take_append_le)
    with t have "take (length s) ((c # cs) @ b) = s" by simp
    then show ?thesis by simp
  next
    assume "contains cs s"
    with Cons.IH show ?thesis by simp
  qed
qed

lemma contains_chars: "contains t s \<Longrightarrow> set s \<subseteq> set t"
proof (induction t)
  case Nil
  then show ?case by simp
next
  case (Cons c cs)
  from Cons.prems have "take (length s) (c # cs) = s \<or> contains cs s" by simp
  then show ?case
  proof
    assume "take (length s) (c # cs) = s"
    then show ?thesis by (metis set_take_subset)
  next
    assume "contains cs s"
    with Cons.IH show ?thesis by auto
  qed
qed

lemma str_nat_digits: "set (str_nat n) \<subseteq> {48..57}"
proof (induction n rule: str_nat.induct)
  case (1 n)
  show ?case
  proof (cases "n < 10")
    case True
    then show ?thesis by (subst str_nat.simps) auto
  next
    case False
    have "48 + n mod 10 \<in> {48..57}" by (simp; presburger)
    with 1 False show ?thesis by (subst str_nat.simps) auto
  qed
qed

lemma str_int_chars: "set (str_int i) \<subseteq> insert 45 {48..57}"
  using str_nat_digits by (auto simp: str_int_def)

section \<open>The rendered configuration\<close>

lemma contains_needle_prefix: "contains t (a @ b) \<Longrightarrow> contains t a"
proof (induction t)
  case Nil
  then show ?case by simp
next
  case (Cons c cs)
  from Cons.prems
  have "take (length (a @ b)) (c # cs) = a @ b \<or> contains cs (a @ b)" by simp
  then show ?case
  proof
    assume t: "take (length (a @ b)) (c # cs) = a @ b"
    have "take (length a) (take (length (a @ b)) (c # cs)) = take (length a) (c # cs)"
      by (simp only: take_take length_append) simp
    with t have "take (length a) (c # cs) = a" by simp
    then show ?thesis by simp
  next
    assume "contains cs (a @ b)"
    with Cons.IH show ?thesis by simp
  qed
qed

lemma fixed_text_without_hsts:
  "\<not> contains site_open hsts_name" "\<not> contains proxy_options hsts_name"
  "\<not> contains headers_local hsts_name" "\<not> contains log_open hsts_name"
  "\<not> contains log_close_local hsts_name"
proof -
  have n: "hsts_name = asc ''Stri'' @ asc ''ct-Transport-Security''"
    by (simp add: hsts_name_def asc_def)
  have "\<not> contains site_open (asc ''Stri'')"
    by (simp add: site_open_def asc_def)
  then show "\<not> contains site_open hsts_name"
    unfolding n using contains_needle_prefix by blast
  have "\<not> contains proxy_options (asc ''Stri'')"
    by (simp add: proxy_options_def asc_def)
  then show "\<not> contains proxy_options hsts_name"
    unfolding n using contains_needle_prefix by blast
  have "\<not> contains headers_local (asc ''Stri'')"
    by (simp add: headers_local_def asc_def)
  then show "\<not> contains headers_local hsts_name"
    unfolding n using contains_needle_prefix by blast
  have "\<not> contains log_open (asc ''Stri'')"
    by (simp add: log_open_def asc_def)
  then show "\<not> contains log_open hsts_name"
    unfolding n using contains_needle_prefix by blast
  have "\<not> contains log_close_local (asc ''Stri'')"
    by (simp add: log_close_local_def asc_def)
  then show "\<not> contains log_close_local hsts_name"
    unfolding n using contains_needle_prefix by blast
qed

lemma headers_local_lines:
  "contains headers_local x_frame_sameorigin" "contains headers_local x_content_nosniff"
  "contains headers_local minus_server"
  by (simp_all add: headers_local_def x_frame_sameorigin_def x_content_nosniff_def
      minus_server_def asc_def)

lemma headers_https_hsts: "contains headers_https hsts_header"
  by (simp add: headers_https_def hsts_header_def asc_def)

lemma semicolon_in_hsts: "59 \<in> set hsts_header"
  by (simp add: hsts_header_def asc_def)

lemma no_semicolon_fixed:
  "59 \<notin> set site_open" "59 \<notin> set proxy_options" "59 \<notin> set headers_local"
  "59 \<notin> set headers_http" "59 \<notin> set log_open" "59 \<notin> set log_close_local"
  "59 \<notin> set log_close_prod" "59 \<notin> set (str_int p)"
proof -
  show "59 \<notin> set site_open" by (simp add: site_open_def asc_def)
  show "59 \<notin> set proxy_options" by (simp add: proxy_options_def asc_def)
  show "59 \<notin> set headers_local" by (simp add: headers_local_def asc_def)
  show "59 \<notin> set headers_http" by (simp add: headers_http_def asc_def)
  show "59 \<notin> set log_open" by (simp add: log_open_def asc_def)
  show "59 \<notin> set log_close_local" by (simp add: log_close_local_def asc_def)
  show "59 \<notin> set log_close_prod" by (simp add: log_close_prod_def asc_def)
  show "59 \<notin> set (str_int p)" using str_int_chars[of p] by auto
qed

lemma local_config_without_hsts_line:
  assumes "59 \<notin> set domain" "59 \<notin> set host" "59 \<notin> set dir"
  shows "\<not> contains (local_config domain host port dir) hsts_header"
proof
  assume "contains (local_config domain host port dir) hsts_header"
  then have "59 \<in> set (local_config domain host port dir)"
    using contains_chars semicolon_in_hsts by blast
  with assms no_semicolon_fixed show False
    by (simp add: local_config_def asc_def)
qed

lemma http_config_without_hsts_line:
  assumes "59 \<notin> set domain" "59 \<notin> set host" "59 \<notin> set dir"
  shows "\<not> contains (http_config domain host port dir) hsts_header"
proof
  assume "contains (http_config domain host port dir) hsts_header"
  then have "59 \<in> set (http_config domain host port dir)"
    using contains_chars semicolon_in_hsts by blast
  with assms no_semicolon_fixed show False
    by (simp add: http_config_def asc_def)
qed

lemma logger_keeps [simp]:
  "write_error (machine (logger cx lvl msg s)) = write_error (machine s)"
  "config_file (machine (logger cx lvl msg s)) = config_file (machine s)"
  "pid_file (machine (logger cx lvl msg s)) = pid_file (machine s)"
  "procs (machine (logger cx lvl msg s)) = procs (machine s)"
  "calls (logger cx lvl msg s) = calls s"
  "queries (logger cx lvl msg s) = queries s"
  "clock (logger cx lvl msg s) = clock s"
  by (simp_all add: logger_def append_log_def Let_def)

lemma generate_config_result:
  "fst (generate_config cx domain port host ssl custom s) = (write_error (machine s) = None)"
  "fst (generate_config cx domain port host ssl custom s) \<Longrightarrow>
   config_file (machine (snd (generate_config cx domain port host ssl custom s))) =
     Some (config_content cx domain port host ssl custom)"
  by (auto simp: generate_config_def Let_def split: option.splits)

lemma first_piece_is_prefix: "take (length (hd (split_colon d))) d = hd (split_colon d)"
proof (induction d)
  case Nil
  then show ?case by simp
next
  case (Cons c cs)
  then show ?case by (cases "split_colon cs") auto
qed

lemma startswith_shorter: "startswith d (a @ b) \<Longrightarrow> startswith d a"
proof -
  assume "startswith d (a @ b)"
  then have t: "take (length a + length b) d = a @ b" by (simp add: startswith_def)
  have "take (length a) (take (length a + length b) d) = take (length a) d"
    by (simp only: take_take) simp
  with t show ?thesis by (simp add: startswith_def)
qed

lemma is_local_prefixes:
  "is_local d \<longleftrightarrow> startswith d (asc ''localhost'') \<or> startswith d (asc ''127.'') \<or>
     startswith d (asc ''0.0.0.0'')"
proof -
  have p: "startswith d (hd (split_colon d))"
    by (simp add: startswith_def first_piece_is_prefix)
  have "startswith d (asc ''127.'')" if "hd (split_colon d) = asc ''127.0.0.1''"
  proof -
    have "asc ''127.0.0.1'' = asc ''127.'' @ asc ''0.0.1''" by (simp add: asc_def)
    with p that show ?thesis using startswith_shorter by metis
  qed
  with p show ?thesis by (auto simp: is_local_def)
qed

lemma contains_split_at:
  assumes "c \<notin> set s" and "s \<noteq> []"
  shows "contains (xs @ c # ys) s \<longleftrightarrow> contains xs s \<or> contains ys s"
proof
  assume "contains xs s \<or> contains ys s"
  then show "contains (xs @ c # ys) s"
  proof
    assume "contains xs s"
    then show ?thesis by (rule contains_append_left)
  next
    assume "contains ys s"
    then have "contains (c # ys) s" by simp
    then show ?thesis by (rule contains_append_right)
  qed
next
  assume "contains (xs @ c # ys) s"
  then show "contains xs s \<or> contains ys s"
  proof (induction xs)
    case Nil
    then have "take (length s) (c # ys) = s \<or> contains ys s" by simp
    then show ?case
    proof
      assume t: "take (length s) (c # ys) = s"
      from assms(2) obtain n where "length s = Suc n" by (cases s) auto
      with t have "c # take n ys = s" by simp
      then have "c \<in> set s" by auto
      with assms(1) show ?thesis by simp
    qed simp
  next
    case (Cons x xs)
    from Cons.prems
    have "take (length s) (x # xs @ c # ys) = s \<or> contains (xs @ c # ys) s" by simp
    then show ?case
    proof
      assume t: "take (length s) (x # xs @ c # ys) = s"
      show ?thesis
      proof (cases "length s \<le> length (x # xs)")
        case True
        then have "take (length s) ((x # xs) @ c # ys) = take (length s) (x # xs)"
          by (rule take_append_le)
        with t have "take (length s) (x # xs) = s" by simp
        then show ?thesis by simp
      next
        case False
        then have "length (x # xs) \<le> length s" by simp
        then have "take (length s) ((x # xs) @ c # ys) =
                     (x # xs) @ take (length s - length (x # xs)) (c # ys)"
          by (rule take_append_ge)
        moreover from False obtain n where "length s - length (x # xs) = Suc n"
          by (cases "length s - length (x # xs)") auto
        ultimately have "take (length s) ((x # xs) @ c # ys) = (x # xs) @ c # take n ys"
          by simp
        with t have "(x # xs) @ c # take n ys = s" by simp
        then have "c \<in> set s" by auto
        with assms(1) show ?thesis by simp
      qed
    next
      assume "contains (xs @ c # ys) s"
      with Cons.IH show ?thesis by auto
    qed
  qed
qed

lemma hsts_name_chars:
  "32 \<notin> set hsts_name" "58 \<notin> set hsts_name" "47 \<notin> set hsts_name" "hsts_name \<noteq> []"
  "83 \<in> set hsts_name"
  by (simp_all add: hsts_name_def asc_def)

lemma local_config_pieces:
  "local_config domain host port dir =
     domain @ 32 # butlast (tl site_open) @ 32 # host @ 58 # str_int port @
     32 # (tl proxy_options @ headers_local @ butlast log_open) @ 32 # dir @
     47 # tl log_close_local"
proof -
  have a: "site_open = 32 # butlast (tl site_open) @ [32]"
    by (simp add: site_open_def asc_def)
  have b: "proxy_options = 32 # tl proxy_options"
    by (simp add: proxy_options_def asc_def)
  have c: "log_open = butlast log_open @ [32]"
    by (simp add: log_open_def asc_def)
  have d: "log_close_local = 47 # tl log_close_local"
    by (simp add: log_close_local_def asc_def)
  have "local_config domain host port dir =
          domain @ (32 # butlast (tl site_open) @ [32]) @ host @ asc '':'' @ str_int port @
          (32 # tl proxy_options) @ headers_local @ (butlast log_open @ [32]) @ dir @
          (47 # tl log_close_local)"
    unfolding local_config_def using a b c d by simp
  then show ?thesis by (simp add: asc_def)
qed

lemma local_fixed_without_hsts:
  "\<not> contains (butlast (tl site_open)) hsts_name"
  "\<not> contains (tl proxy_options @ headers_local @ butlast log_open) hsts_name"
  "\<not> contains (tl log_close_local) hsts_name"
  "\<not> contains (str_int port) hsts_name"
proof -
  have n: "hsts_name = asc ''Stri'' @ asc ''ct-Transport-Security''"
    by (simp add: hsts_name_def asc_def)
  have "\<not> contains (butlast (tl site_open)) (asc ''Stri'')"
    by (simp add: site_open_def asc_def)
  then show "\<not> contains (butlast (tl site_open)) hsts_name"
    unfolding n using contains_needle_prefix by blast
  have "\<not> contains (tl proxy_options @ headers_local @ butlast log_open) (asc ''Stri'')"
    by (simp add: proxy_options_def headers_local_def log_open_def asc_def)
  then show "\<not> contains (tl proxy_options @ headers_local @ butlast log_open) hsts_name"
    unfolding n using contains_needle_prefix by blast
  have "\<not> contains (tl log_close_local) (asc ''Stri'')"
    by (simp add: log_close_local_def asc_def)
  then show "\<not> contains (tl log_close_local) hsts_name"
    unfolding n using contains_needle_prefix by blast
  show "\<not> contains (str_int port) hsts_name"
  proof
    assume "contains (str_int port) hsts_name"
    then have "83 \<in> set (str_int port)"
      using contains_chars hsts_name_chars(5) by blast
    then show False using str_int_chars[of port] by auto
  qed
qed

lemma local_config_hsts_only_from_caller:
  "contains (local_config domain host port dir) hsts_name \<longleftrightarrow>
     contains domain hsts_name \<or> contains host hsts_name \<or> contains dir hsts_name"
proof -
  define m where "m = tl proxy_options @ headers_local @ butlast log_open"
  define r5 where "r5 = tl log_close_local"
  define r4 where "r4 = dir @ 47 # r5"
  define r3 where "r3 = m @ 32 # r4"
  define r2 where "r2 = str_int port @ 32 # r3"
  define r1 where "r1 = host @ 58 # r2"
  define r0 where "r0 = butlast (tl site_open) @ 32 # r1"
  have e: "local_config domain host port dir = domain @ 32 # r0"
    unfolding local_config_pieces r0_def r1_def r2_def r3_def r4_def r5_def m_def by simp
  note sp = contains_split_at[OF _ hsts_name_chars(4)]
  have "contains (domain @ 32 # r0) hsts_name \<longleftrightarrow>
          contains domain hsts_name \<or> contains r0 hsts_name"
    by (rule sp[OF hsts_name_chars(1)])
  moreover have "contains r0 hsts_name \<longleftrightarrow>
          contains (butlast (tl site_open)) hsts_name \<or> contains r1 hsts_name"
    unfolding r0_def by (rule sp[OF hsts_name_chars(1)])
  moreover have "contains r1 hsts_name \<longleftrightarrow> contains host hsts_name \<or> contains r2 hsts_name"
    unfolding r1_def by (rule sp[OF hsts_name_chars(2)])
  moreover have "contains r2 hsts_name \<longleftrightarrow>
          contains (str_int port) hsts_name \<or> contains r3 hsts_name"
    unfolding r2_def by (rule sp[OF hsts_name_chars(1)])
  moreover have "contains r3 hsts_name \<longleftrightarrow> contains m hsts_name \<or> contains r4 hsts_name"
    unfolding r3_def by (rule sp[OF hsts_name_chars(1)])
  moreover have "contains r4 hsts_name \<longleftrightarrow> contains dir hsts_name \<or> contains r5 hsts_name"
    unfolding r4_def by (rule sp[OF hsts_name_chars(3)])
  ultimately show ?thesis
    unfolding e using local_fixed_without_hsts by (auto simp: m_def r5_def)
qed

text \<open>
  C7, as the code has it. For every listen spec that \<open>generate_config\<close> classifies local,
  and that is every spec starting with \<open>localhost\<close>, \<open>127.\<close> or \<open>0.0.0.0\<close>, a call with no
  custom configuration that returns \<open>True\<close> has written the local template, which holds
  the header block \<open>headers_local\<close> with the three lines of the local profile. The text
  \<open>Strict-Transport-Security\<close> occurs in the file exactly when it occurs in one of the
  strings the caller passed (the listen spec, the backend host, the directory): the
  template adds none, and it omits the header whenever those strings are free of it.
\<close>

theorem local_spec_gets_local_profile:
  assumes "is_local domain"
    and "fst (generate_config cx domain port host ssl None s)"
  shows "(startswith domain (asc ''localhost'') \<or> startswith domain (asc ''127.'') \<or>
          startswith domain (asc ''0.0.0.0'')) \<and>
         config_file (machine (snd (generate_config cx domain port host ssl None s))) =
           Some (domain @ site_open @ host @ asc '':'' @ str_int port @ proxy_options @
                 headers_local @ log_open @ config_dir cx @ log_close_local) \<and>
         contains headers_local x_frame_sameorigin \<and>
         contains headers_local x_content_nosniff \<and>
         contains headers_local minus_server \<and>
         contains (local_config domain host port (config_dir cx)) headers_local \<and>
         (contains (local_config domain host port (config_dir cx)) hsts_name \<longleftrightarrow>
            contains domain hsts_name \<or> contains host hsts_name \<or>
            contains (config_dir cx) hsts_name) \<and>
         (\<not> contains domain hsts_name \<and> \<not> contains host hsts_name \<and>
          \<not> contains (config_dir cx) hsts_name \<longrightarrow>
            \<not> contains (local_config domain host port (config_dir cx)) hsts_name)"
proof -
  have c: "config_content cx domain port host ssl None =
             local_config domain host port (config_dir cx)"
    using assms(1) by (simp add: config_content_def)
  have w: "config_file (machine (snd (generate_config cx domain port host ssl None s))) =
             Some (local_config domain host port (config_dir cx))"
    using generate_config_result(2)[OF assms(2)] c by simp
  have l: "local_config domain host port (config_dir cx) =
             (domain @ site_open @ host @ asc '':'' @ str_int port @ proxy_options) @
             headers_local @ (log_open @ config_dir cx @ log_close_local)"
    by (simp add: local_config_def)
  have h: "contains (local_config domain host port (config_dir cx)) headers_local"
    unfolding l by (rule contains_mid)
  show ?thesis
    using w h headers_local_lines assms(1)
      local_config_hsts_only_from_caller[of domain host port "config_dir cx"]
    by (simp add: local_config_def is_local_prefixes)
qed

theorem local_spec_gets_local_profile_witness:
  "is_local (asc ''localhost:80'') \<and>
   fst (generate_config quiet_ctx (asc ''localhost:80'') 3000 (asc ''127.0.0.1'') False None
          (start_state empty_machine)) \<and>
   config_file (machine (snd (generate_config quiet_ctx (asc ''localhost:80'') 3000
          (asc ''127.0.0.1'') False None (start_state empty_machine)))) =
     Some (asc ''localhost:80'' @ site_open @ asc ''127.0.0.1:3000'' @ proxy_options @
           headers_local @ log_open @ asc ''/home/u/.caddy'' @ log_close_local) \<and>
   \<not> contains (local_config (asc ''localhost:80'') (asc ''127.0.0.1'') 3000
                  (asc ''/home/u/.caddy'')) hsts_name"
proof -
  have a: "is_local (asc ''localhost:80'')"
    by (simp add: is_local_def startswith_def asc_def)
  have b: "fst (generate_config quiet_ctx (asc ''localhost:80'') 3000 (asc ''127.0.0.1'') False
                  None (start_state empty_machine))"
    by (simp add: generate_config_result(1) start_state_def empty_machine_def)
  have p: "str_int 3000 = asc ''3000''"
    by (simp add: str_int_def str_nat.simps asc_def)
  have d: "config_dir quiet_ctx = asc ''/home/u/.caddy''"
    by (simp add: quiet_ctx_def)
  have n: "\<not> contains (asc ''localhost:80'') hsts_name"
    "\<not> contains (asc ''127.0.0.1'') hsts_name" "\<not> contains (asc ''/home/u/.caddy'') hsts_name"
    by (simp_all add: hsts_name_def asc_def)
  from local_spec_gets_local_profile[OF a b] n
  have "config_file (machine (snd (generate_config quiet_ctx (asc ''localhost:80'') 3000
          (asc ''127.0.0.1'') False None (start_state empty_machine)))) =
     Some (asc ''localhost:80'' @ site_open @ asc ''127.0.0.1'' @ asc '':'' @ str_int 3000 @
           proxy_options @ headers_local @ log_open @ config_dir quiet_ctx @ log_close_local)"
    and "\<not> contains (local_config (asc ''localhost:80'') (asc ''127.0.0.1'') 3000
                  (config_dir quiet_ctx)) hsts_name"
    by (simp_all add: d)
  then show ?thesis
    using a b by (simp add: p d asc_def)
qed

text \<open>
  The claim as the specification words it fails: \<open>crafted_domain\<close> starts with
  \<open>localhost\<close>, so it is classified local, and the file written for it holds the HSTS
  header line, in a site block of its own.
\<close>

theorem crafted_local_spec_keeps_hsts:
  "is_local crafted_domain \<and> startswith crafted_domain (asc ''localhost'') \<and>
   fst (generate_config quiet_ctx crafted_domain 3000 (asc ''127.0.0.1'') False None
          (start_state empty_machine)) \<and>
   config_file (machine (snd (generate_config quiet_ctx crafted_domain 3000
          (asc ''127.0.0.1'') False None (start_state empty_machine)))) =
     Some (local_config crafted_domain (asc ''127.0.0.1'') 3000 (asc ''/home/u/.caddy'')) \<and>
   contains (local_config crafted_domain (asc ''127.0.0.1'') 3000 (asc ''/home/u/.caddy''))
     hsts_header"
proof -
  have s: "startswith crafted_domain (asc ''localhost'')"
    by (simp add: startswith_def crafted_domain_def asc_def)
  then have a: "is_local crafted_domain" by (simp add: is_local_def)
  have b: "fst (generate_config quiet_ctx crafted_domain 3000 (asc ''127.0.0.1'') False
                  None (start_state empty_machine))"
    by (simp add: generate_config_result(1) start_state_def empty_machine_def)
  have c: "config_content quiet_ctx crafted_domain 3000 (asc ''127.0.0.1'') False None =
             local_config crafted_domain (asc ''127.0.0.1'') 3000 (asc ''/home/u/.caddy'')"
    using a by (simp add: config_content_def quiet_ctx_def)
  have "crafted_domain = (asc ''localhost:80 {\<newline>'' @ asc ''    header '') @ hsts_header @
                           (asc ''\<newline>'' @ asc ''}\<newline>'' @ asc ''localhost:81'')"
    by (simp add: crafted_domain_def hsts_header_def asc_def)
  then have "contains crafted_domain hsts_header"
    using contains_mid by metis
  then have h: "contains (local_config crafted_domain (asc ''127.0.0.1'') 3000
                            (asc ''/home/u/.caddy'')) hsts_header"
    unfolding local_config_def by (rule contains_append_left)
  show ?thesis
    using s a b h generate_config_result(2)[OF b] c by simp
qed

text \<open>
  C2, as the code has it. For every listen spec that is not classified local and does
  not contain the text \<open>:80\<close>, whatever the backend, the directory and \<open>enable_ssl\<close>, a
  call with no custom configuration that returns \<open>True\<close> has written the third
  template, whose header block holds the line
  \<open>Strict-Transport-Security "max-age=31536000; includeSubDomains"\<close>.
\<close>

theorem public_spec_gets_hsts:
  assumes "\<not> is_local domain"
    and "\<not> contains domain (asc '':80'')"
    and "fst (generate_config cx domain port host ssl None s)"
  shows "config_file (machine (snd (generate_config cx domain port host ssl None s))) =
           Some (domain @ site_open @ host @ asc '':'' @ str_int port @ proxy_options @
                 headers_https @ log_open @ config_dir cx @ log_close_prod) \<and>
         contains (https_config domain host port (config_dir cx)) hsts_header"
proof -
  have "domain \<noteq> asc '':80''"
    using assms(2) contains_prefix[of "asc '':80''" "[]"] by auto
  with assms(1,2)
  have c: "config_content cx domain port host ssl None =
             https_config domain host port (config_dir cx)"
    by (simp add: config_content_def is_http_only_def)
  have l: "https_config domain host port (config_dir cx) =
             (domain @ site_open @ host @ asc '':'' @ str_int port @ proxy_options) @
             headers_https @ (log_open @ config_dir cx @ log_close_prod)"
    by (simp add: https_config_def)
  have "contains (https_config domain host port (config_dir cx)) hsts_header"
    unfolding l using headers_https_hsts contains_append_left contains_append_right by blast
  then show ?thesis
    using generate_config_result(2)[OF assms(3)] c by (simp add: https_config_def)
qed

theorem public_spec_gets_hsts_witness:
  "\<not> is_local (asc ''example.com'') \<and> \<not> contains (asc ''example.com'') (asc '':80'') \<and>
   fst (generate_config quiet_ctx (asc ''example.com'') 3000 (asc ''127.0.0.1'') True None
          (start_state empty_machine)) \<and>
   contains (https_config (asc ''example.com'') (asc ''127.0.0.1'') 3000
               (config_dir quiet_ctx)) hsts_header"
proof -
  have a: "\<not> is_local (asc ''example.com'')"
    by (simp add: is_local_def startswith_def asc_def)
  have b: "\<not> contains (asc ''example.com'') (asc '':80'')"
    by (simp add: asc_def)
  have c: "fst (generate_config quiet_ctx (asc ''example.com'') 3000 (asc ''127.0.0.1'') True
                  None (start_state empty_machine))"
    by (simp add: generate_config_result(1) start_state_def empty_machine_def)
  show ?thesis
    using public_spec_gets_hsts[OF a b c] a b c by simp
qed

text \<open>
  The claim as the specification words it fails: \<open>example.com:8080\<close> is not local and
  its port is 8080, not 80, yet the text \<open>:80\<close> occurs in it, the second template is
  chosen and the file holds no HSTS line.
\<close>

theorem port_8080_gets_no_hsts:
  "\<not> is_local (asc ''example.com:8080'') \<and>
   split_colon (asc ''example.com:8080'') = [asc ''example.com'', asc ''8080''] \<and>
   fst (generate_config quiet_ctx (asc ''example.com:8080'') 3000 (asc ''127.0.0.1'') False None
          (start_state empty_machine)) \<and>
   config_file (machine (snd (generate_config quiet_ctx (asc ''example.com:8080'') 3000
          (asc ''127.0.0.1'') False None (start_state empty_machine)))) =
     Some (http_config (asc ''example.com:8080'') (asc ''127.0.0.1'') 3000
             (asc ''/home/u/.caddy'')) \<and>
   \<not> contains (http_config (asc ''example.com:8080'') (asc ''127.0.0.1'') 3000
                  (asc ''/home/u/.caddy'')) hsts_header"
proof -
  have a: "\<not> is_local (asc ''example.com:8080'')"
    by (simp add: is_local_def startswith_def asc_def)
  have s: "split_colon (asc ''example.com:8080'') = [asc ''example.com'', asc ''8080'']"
    by (simp add: asc_def)
  have h: "is_http_only (asc ''example.com:8080'')"
    by (simp add: is_http_only_def asc_def)
  have b: "fst (generate_config quiet_ctx (asc ''example.com:8080'') 3000 (asc ''127.0.0.1'')
                  False None (start_state empty_machine))"
    by (simp add: generate_config_result(1) start_state_def empty_machine_def)
  have c: "config_content quiet_ctx (asc ''example.com:8080'') 3000 (asc ''127.0.0.1'') False None
             = http_config (asc ''example.com:8080'') (asc ''127.0.0.1'') 3000
                 (asc ''/home/u/.caddy'')"
    using a h by (simp add: config_content_def quiet_ctx_def)
  have n: "\<not> contains (http_config (asc ''example.com:8080'') (asc ''127.0.0.1'') 3000
                  (asc ''/home/u/.caddy'')) hsts_header"
    by (rule http_config_without_hsts_line) (simp_all add: asc_def)
  show ?thesis
    using a s b n generate_config_result(2)[OF b] c by simp
qed

text \<open>
  C10. \<open>enable_ssl\<close> has no effect: two calls of \<open>generate_config\<close> that differ in it
  alone return the same value and leave the same state, the written file included.
\<close>

theorem enable_ssl_is_ignored:
  "generate_config cx domain port host ssl custom s =
   generate_config cx domain port host ssl' custom s"
  by (simp add: generate_config_def config_content_def)

theorem enable_ssl_is_ignored_witness:
  "generate_config quiet_ctx (asc ''example.com'') 3000 (asc ''127.0.0.1'') True None
     (start_state empty_machine) =
   generate_config quiet_ctx (asc ''example.com'') 3000 (asc ''127.0.0.1'') False None
     (start_state empty_machine)"
  by (rule enable_ssl_is_ignored)

section \<open>Stopping\<close>

lemma lines_of_nonempty: "lines_of t \<noteq> []"
  by (induction t) (auto split: list.splits)

lemma append_log_fields [simp]:
  "config_file (append_log r m) = config_file m"
  "pid_file (append_log r m) = pid_file m"
  "procs (append_log r m) = procs m"
  "write_error (append_log r m) = write_error m"
  "log_file (append_log r m) = map_option (\<lambda>ls. ls @ lines_of r) (log_file m)"
  by (simp_all add: append_log_def)

lemma logger_machine:
  "machine (logger cx lvl msg s) = append_log (format_record cx (clock s) lvl msg) (machine s)"
  "console (logger cx lvl msg s) = console s @ [format_record cx (clock s) lvl msg]"
  by (simp_all add: logger_def Let_def)

lemma ask_fields [simp]:
  "machine (ask qs s) = machine s" "calls (ask qs s) = calls s" "clock (ask qs s) = clock s"
  "console (ask qs s) = console s" "queries (ask qs s) = queries s @ qs"
  by (simp_all add: ask_def)

lemma find_proc_append_log [simp]: "find_proc (append_log r m) n = find_proc m n"
  by (simp add: find_proc_def)

lemma os_kill_probe: "os_kill n 0 m = Inr m' \<Longrightarrow> m' = m"
  by (auto simp: os_kill_def split: option.splits if_splits)

lemma check_pid_file_process_append_log [simp]:
  "check_pid_file_process cx (append_log r m) = check_pid_file_process cx m"
  by (auto simp: check_pid_file_process_def os_kill_def split: pidfile.splits option.splits)

lemma check_any_caddy_process_append_log [simp]:
  "check_any_caddy_process cx (append_log r m) = check_any_caddy_process cx m"
  by (simp add: check_any_caddy_process_def)

lemma is_running_append_log [simp]: "is_running cx (append_log r m) = is_running cx m"
  by (simp add: is_running_def)

lemma is_running_queries_append_log [simp]:
  "is_running_queries cx (append_log r m) = is_running_queries cx m"
  by (simp add: is_running_queries_def pid_queries_def)

text \<open>
  C6, as the code has it. When the service is not running, \<open>undeploy\<close> returns \<open>True\<close>
  and sends no signal: it issues none of the calls that act on the machine, only the
  questions of \<open>is_running\<close>. It leaves the PID file, the configuration file and the
  process table as they were. One file does change: the two records of its logger are
  appended to \<open>caddy.log\<close> (and printed).
\<close>

theorem undeploy_when_stopped:
  assumes "\<not> is_running cx (machine s)"
  shows "fst (undeploy cx s) = Some True \<and>
         calls (snd (undeploy cx s)) = calls s \<and>
         queries (snd (undeploy cx s)) = queries s @ is_running_queries cx (machine s) \<and>
         pid_file (machine (snd (undeploy cx s))) = pid_file (machine s) \<and>
         config_file (machine (snd (undeploy cx s))) = config_file (machine s) \<and>
         procs (machine (snd (undeploy cx s))) = procs (machine s) \<and>
         clock (snd (undeploy cx s)) = clock s \<and>
         console (snd (undeploy cx s)) =
           console s @ [format_record cx (clock s) INFO msg_stopping,
                        format_record cx (clock s) INFO msg_not_running] \<and>
         log_file (machine (snd (undeploy cx s))) =
           map_option (\<lambda>ls. ls @ lines_of (format_record cx (clock s) INFO msg_stopping) @
                              lines_of (format_record cx (clock s) INFO msg_not_running))
             (log_file (machine s))"
  using assms
  by (cases "log_file (machine s)") (simp_all add: undeploy_def Let_def logger_machine)

theorem undeploy_when_stopped_witness:
  "\<not> is_running quiet_ctx empty_machine \<and>
   fst (undeploy quiet_ctx (start_state empty_machine)) = Some True \<and>
   calls (snd (undeploy quiet_ctx (start_state empty_machine))) = [] \<and>
   queries (snd (undeploy quiet_ctx (start_state empty_machine))) = [Pgrep] \<and>
   pid_file (machine (snd (undeploy quiet_ctx (start_state empty_machine)))) = NoFile"
proof -
  have a: "\<not> is_running quiet_ctx (machine (start_state empty_machine))"
    by (simp add: is_running_def check_pid_file_process_def check_any_caddy_process_def
        quiet_ctx_def empty_machine_def start_state_def)
  have q: "is_running_queries quiet_ctx empty_machine = [Pgrep]"
    by (simp add: is_running_queries_def pid_queries_def check_pid_file_process_def
        caddy_query_def quiet_ctx_def empty_machine_def)
  show ?thesis
    using undeploy_when_stopped[OF a] a q
    by (simp add: start_state_def empty_machine_def)
qed

text \<open>
  The claim as the specification words it fails on \<open>caddy.log\<close>: the logger of the
  deployer writes to the file that \<open>self.log_file\<close> names, so a stopped service's
  \<open>undeploy\<close> leaves that file longer than it found it.
\<close>

theorem undeploy_when_stopped_appends_to_log:
  "\<not> is_running quiet_ctx empty_machine \<and>
   log_file empty_machine = Some [] \<and>
   log_file (machine (snd (undeploy quiet_ctx (start_state empty_machine)))) \<noteq> Some []"
proof -
  have a: "\<not> is_running quiet_ctx empty_machine"
    by (simp add: is_running_def check_pid_file_process_def check_any_caddy_process_def
        quiet_ctx_def empty_machine_def)
  have "log_file (machine (snd (undeploy quiet_ctx (start_state empty_machine)))) \<noteq> Some []"
    using a lines_of_nonempty
    by (simp add: undeploy_def Let_def logger_machine start_state_def empty_machine_def)
  with a show ?thesis by (simp add: empty_machine_def)
qed

lemma kill_calls: "calls (snd (kill n sig s)) = calls s @ [Kill n sig]"
  by (simp add: kill_def split: sum.splits)

lemma os_kill_lookup_error:
  "os_kill n sig m = Inl e \<Longrightarrow> is_ProcessLookupError e \<Longrightarrow> find_proc m n = None"
  by (auto simp: os_kill_def split: option.splits if_splits)

lemma os_kill_accepted:
  "find_proc m n = Some p \<Longrightarrow> owned p \<Longrightarrow> \<exists>m'. os_kill n sig m = Inr m'"
  by (simp add: os_kill_def)

lemma find_proc_removed: "find_proc (m\<lparr>procs := filter (\<lambda>q. pid q \<noteq> n) (procs m)\<rparr>) n = None"
  by (simp add: find_proc_def find_None_iff)

lemma os_kill_9_removes: "os_kill n 9 m = Inr m' \<Longrightarrow> find_proc m' n = None"
  using find_proc_removed by (auto simp: os_kill_def split: option.splits if_splits)

lemma kill_outcome:
  "fst (kill n sig s) = None \<Longrightarrow> os_kill n sig (machine s) = Inr (machine (snd (kill n sig s)))"
  "fst (kill n sig s) = Some e \<Longrightarrow>
     os_kill n sig (machine s) = Inl e \<and> machine (snd (kill n sig s)) = machine s"
  by (auto simp: kill_def split: sum.splits)

lemma term_then_kill_calls:
  assumes "find_proc (machine s) n = Some p" and "owned p"
  shows "calls (snd (term_then_kill cx n s)) = calls s @ [Kill n 15, Sleep 2, Kill n 9]"
proof -
  obtain m' where "os_kill n 15 (machine s) = Inr m'"
    using os_kill_accepted[OF assms] by blast
  then have k: "kill n 15 s = (None, s\<lparr>machine := m', calls := calls s @ [Kill n 15]\<rparr>)"
    by (simp add: kill_def)
  let ?s2 = "sleep cx 2 (s\<lparr>machine := m', calls := calls s @ [Kill n 15]\<rparr>)"
  obtain r s3 where k9: "kill n 9 ?s2 = (r, s3)"
    by (cases "kill n 9 ?s2") auto
  have "calls s3 = calls ?s2 @ [Kill n 9]"
    using kill_calls[of n 9 ?s2] k9 by simp
  then have c: "calls s3 = calls s @ [Kill n 15, Sleep 2, Kill n 9]"
    by (simp add: sleep_def)
  show ?thesis
    by (cases r) (simp_all add: term_then_kill_def k k9 c)
qed

lemma term_then_kill_dead:
  assumes "fst (term_then_kill cx n s) = None"
  shows "find_proc (machine (snd (term_then_kill cx n s))) n = None"
proof -
  obtain r1 s1 where k: "kill n 15 s = (r1, s1)"
    by (cases "kill n 15 s") auto
  show ?thesis
  proof (cases r1)
    case (Some e)
    with assms k have ple: "is_ProcessLookupError e"
      by (auto simp: term_then_kill_def split: if_splits)
    from k Some have "fst (kill n 15 s) = Some e" by simp
    from kill_outcome(2)[OF this] k
    have "os_kill n 15 (machine s) = Inl e" and "machine s1 = machine s" by simp_all
    with ple have "find_proc (machine s1) n = None"
      using os_kill_lookup_error by metis
    with Some ple k show ?thesis by (simp add: term_then_kill_def)
  next
    case None
    obtain r2 s3 where k9: "kill n 9 (sleep cx 2 s1) = (r2, s3)"
      by (cases "kill n 9 (sleep cx 2 s1)") auto
    show ?thesis
    proof (cases r2)
      case (Some e)
      with assms k None k9 have ple: "is_ProcessLookupError e"
        by (auto simp: term_then_kill_def split: if_splits)
      from k9 Some have "fst (kill n 9 (sleep cx 2 s1)) = Some e" by simp
      from kill_outcome(2)[OF this] k9
      have "os_kill n 9 (machine (sleep cx 2 s1)) = Inl e"
        and "machine s3 = machine (sleep cx 2 s1)" by simp_all
      with ple have "find_proc (machine s3) n = None"
        using os_kill_lookup_error by metis
      with Some ple k None k9 show ?thesis by (simp add: term_then_kill_def)
    next
      case n2: None
      from k9 n2 have "fst (kill n 9 (sleep cx 2 s1)) = None" by simp
      from kill_outcome(1)[OF this] k9
      have "os_kill n 9 (machine (sleep cx 2 s1)) = Inr (machine s3)" by simp
      then have "find_proc (machine s3) n = None" by (rule os_kill_9_removes)
      with k None k9 n2 show ?thesis by (simp add: term_then_kill_def)
    qed
  qed
qed

lemma kill_missing:
  "find_proc (machine s) n = None \<Longrightarrow>
   kill n sig s = (Some (Exn ProcessLookupError (asc ''[Errno 3] No such process'')),
                   s\<lparr>calls := calls s @ [Kill n sig]\<rparr>)"
  by (simp add: kill_def os_kill_def)

lemma unlink_pid_file_keeps [simp]:
  "calls (snd (unlink_pid_file s)) = calls s"
  "procs (machine (snd (unlink_pid_file s))) = procs (machine s)"
  by (simp_all add: unlink_pid_file_def split: option.splits)

lemma cleanup_calls:
  "\<exists>rest. calls (snd (cleanup_caddy_processes cx s)) = calls s @ rest"
  by (simp add: cleanup_caddy_processes_def)

lemma running_by_pid_file:
  assumes "system cx = Unix" "pid_file m = Pid n" "find_proc m n = Some p" "owned p"
  shows "is_running cx m"
  using assms by (simp add: is_running_def check_pid_file_process_def os_kill_def)

lemma undeploy_calls_when_recorded:
  assumes "system cx = Unix" and "pid_file (machine s) = Pid n"
    and "find_proc (machine s) n = Some p" and "owned p"
  shows "\<exists>rest. calls (snd (undeploy cx s)) = calls s @ [Kill n 15, Sleep 2, Kill n 9] @ rest"
proof -
  define s1 where "s1 = ask (is_running_queries cx (machine (logger cx INFO msg_stopping s)))
                          (logger cx INFO msg_stopping s)"
  define sk where "sk = logger cx INFO (msg_killing @ str_nat n) s1"
  have pf: "pid_file (machine s1) = Pid n" and fp: "find_proc (machine sk) n = Some p"
    and cs: "calls sk = calls s"
    using assms by (simp_all add: s1_def sk_def logger_machine)
  have run: "is_running cx (machine s1)"
    using assms running_by_pid_file[of cx "machine s" n p] by (simp add: s1_def logger_machine)
  obtain r s2 where tk: "term_then_kill cx n sk = (r, s2)"
    by (cases "term_then_kill cx n sk") auto
  have c2: "calls s2 = calls s @ [Kill n 15, Sleep 2, Kill n 9]"
    using term_then_kill_calls[OF fp assms(4), of cx] tk cs by simp
  have sr: "stop_recorded cx s1 =
              (case r of Some e \<Rightarrow> (Some e, s2) | None \<Rightarrow> unlink_pid_file s2)"
    using assms(1) pf tk by (simp add: stop_recorded_def sk_def Let_def split: option.splits)
  have un: "undeploy cx s =
              (case stop_recorded cx s1 of
                 (Some e, s3) \<Rightarrow> (Some False, logger cx ERROR (msg_stop_failed @ exn_text e) s3)
               | (None, s3) \<Rightarrow>
                   (case cleanup_caddy_processes cx s3 of
                      (True, s4) \<Rightarrow> (Some True, logger cx INFO msg_stopped s4)
                    | (False, s4) \<Rightarrow> (None, s4)))"
    using run by (simp add: undeploy_def s1_def Let_def)
  show ?thesis
  proof (cases r)
    case (Some e)
    then show ?thesis by (simp add: un sr c2)
  next
    case None
    obtain r3 s3 where u: "unlink_pid_file s2 = (r3, s3)"
      by (cases "unlink_pid_file s2") auto
    have c3: "calls s3 = calls s2"
      using unlink_pid_file_keeps(1)[of s2] u by simp
    show ?thesis
    proof (cases r3)
      case (Some e)
      with None u show ?thesis by (simp add: un sr c2 c3)
    next
      case n3: None
      obtain b s4 where cl: "cleanup_caddy_processes cx s3 = (b, s4)"
        by (cases "cleanup_caddy_processes cx s3") auto
      obtain rest where "calls s4 = calls s3 @ rest"
        using cleanup_calls[of cx s3] cl by auto
      with None u n3 cl show ?thesis
        by (cases b) (simp_all add: un sr c2 c3)
    qed
  qed
qed

text \<open>
  C4, as the code has it. Source lines 432-437: once SIGTERM to process \<open>n\<close> has been
  accepted, the block sleeps two seconds and then issues SIGKILL for the same process
  id, whatever became of the process meanwhile; there is no liveness test between the
  sleep and the second call. A process that is gone by then does not get the signal:
  the call changes nothing and raises \<open>ProcessLookupError\<close>, which does not leave the
  block. On a system other than Windows, with the PID file naming such a process,
  these three calls are what \<open>undeploy\<close> issues first.
\<close>

theorem sigkill_always_follows:
  assumes "find_proc (machine s) n = Some p" and "owned p"
  shows "calls (snd (term_then_kill cx n s)) = calls s @ [Kill n 15, Sleep 2, Kill n 9] \<and>
         (find_proc (machine (sleep cx 2 (snd (kill n 15 s)))) n = None \<longrightarrow>
            fst (term_then_kill cx n s) = None \<and>
            procs (machine (snd (term_then_kill cx n s))) =
              procs (machine (sleep cx 2 (snd (kill n 15 s))))) \<and>
         (system cx = Unix \<and> pid_file (machine s) = Pid n \<longrightarrow>
            (\<exists>rest. calls (snd (undeploy cx s)) =
                      calls s @ [Kill n 15, Sleep 2, Kill n 9] @ rest))"
proof (intro conjI impI)
  show "calls (snd (term_then_kill cx n s)) = calls s @ [Kill n 15, Sleep 2, Kill n 9]"
    by (rule term_then_kill_calls[OF assms])
next
  assume gone: "find_proc (machine (sleep cx 2 (snd (kill n 15 s)))) n = None"
  obtain m' where "os_kill n 15 (machine s) = Inr m'"
    using os_kill_accepted[OF assms] by blast
  then have k: "kill n 15 s = (None, s\<lparr>machine := m', calls := calls s @ [Kill n 15]\<rparr>)"
    by (simp add: kill_def)
  define sg where "sg = sleep cx 2 (snd (kill n 15 s))"
  have t: "term_then_kill cx n s =
             (case kill n 9 sg of
                (Some e, s2) \<Rightarrow> if is_ProcessLookupError e then (None, s2) else (Some e, s2)
              | (None, s2) \<Rightarrow> (None, s2))"
    by (simp add: term_then_kill_def k sg_def)
  have k9: "kill n 9 sg = (Some (Exn ProcessLookupError (asc ''[Errno 3] No such process'')),
                           sg\<lparr>calls := calls sg @ [Kill n 9]\<rparr>)"
    using gone by (simp add: kill_missing sg_def)
  show "fst (term_then_kill cx n s) = None"
    unfolding t k9 by simp
  show "procs (machine (snd (term_then_kill cx n s))) =
          procs (machine (sleep cx 2 (snd (kill n 15 s))))"
    unfolding t k9 by (simp add: sg_def)
next
  assume "system cx = Unix \<and> pid_file (machine s) = Pid n"
  then show "\<exists>rest. calls (snd (undeploy cx s)) =
                    calls s @ [Kill n 15, Sleep 2, Kill n 9] @ rest"
    using undeploy_calls_when_recorded[of cx s n p] assms by blast
qed

theorem sigkill_always_follows_witness:
  "find_proc (machine (start_state running_machine)) 77 = Some old_proc \<and> owned old_proc \<and>
   system quiet_ctx = Unix \<and> pid_file (machine (start_state running_machine)) = Pid 77 \<and>
   calls (snd (term_then_kill quiet_ctx 77 (start_state running_machine))) =
     [Kill 77 15, Sleep 2, Kill 77 9] \<and>
   take 3 (calls (snd (undeploy quiet_ctx (start_state running_machine)))) =
     [Kill 77 15, Sleep 2, Kill 77 9]"
proof -
  have a: "system quiet_ctx = Unix" by (simp add: quiet_ctx_def)
  have b: "pid_file (machine (start_state running_machine)) = Pid 77"
    by (simp add: start_state_def running_machine_def)
  have c: "find_proc (machine (start_state running_machine)) 77 = Some old_proc"
    by (simp add: start_state_def running_machine_def find_proc_def old_proc_def)
  have d: "owned old_proc" by (simp add: old_proc_def)
  from sigkill_always_follows[OF c d, of quiet_ctx] a b
  obtain rest where
    "calls (snd (term_then_kill quiet_ctx 77 (start_state running_machine))) =
       calls (start_state running_machine) @ [Kill 77 15, Sleep 2, Kill 77 9]"
    "calls (snd (undeploy quiet_ctx (start_state running_machine))) =
       calls (start_state running_machine) @ [Kill 77 15, Sleep 2, Kill 77 9] @ rest"
    by blast
  then show ?thesis
    using a b c d by (simp add: start_state_def)
qed

text \<open>
  The claim as the specification words it fails: process 77 exits within the grace
  interval, and SIGKILL is issued for process id 77 all the same.
\<close>

theorem sigkill_issued_after_exit:
  "find_proc (machine (start_state running_machine)) 77 = Some old_proc \<and>
   find_proc (machine (sleep graceful_ctx 2 (snd (kill 77 15 (start_state running_machine)))))
     77 = None \<and>
   calls (snd (term_then_kill graceful_ctx 77 (start_state running_machine))) =
     [Kill 77 15, Sleep 2, Kill 77 9] \<and>
   take 3 (calls (snd (undeploy graceful_ctx (start_state running_machine)))) =
     [Kill 77 15, Sleep 2, Kill 77 9]"
proof -
  have a: "system graceful_ctx = Unix" by (simp add: graceful_ctx_def quiet_ctx_def)
  have b: "pid_file (machine (start_state running_machine)) = Pid 77"
    by (simp add: start_state_def running_machine_def)
  have c: "find_proc (machine (start_state running_machine)) 77 = Some old_proc"
    by (simp add: start_state_def running_machine_def find_proc_def old_proc_def)
  have d: "owned old_proc" by (simp add: old_proc_def)
  have g: "find_proc (machine (sleep graceful_ctx 2 (snd (kill 77 15 (start_state running_machine)))))
             77 = None"
    by (simp add: sleep_def kill_def os_kill_def find_proc_def
        start_state_def running_machine_def old_proc_def graceful_ctx_def quiet_ctx_def
        numeral_2_eq_2)
  have t: "calls (snd (term_then_kill graceful_ctx 77 (start_state running_machine))) =
             [Kill 77 15, Sleep 2, Kill 77 9]"
    using term_then_kill_calls[OF c d, of graceful_ctx] by (simp add: start_state_def)
  obtain rest where
    "calls (snd (undeploy graceful_ctx (start_state running_machine))) =
       calls (start_state running_machine) @ [Kill 77 15, Sleep 2, Kill 77 9] @ rest"
    using undeploy_calls_when_recorded[OF a b c d] by blast
  then have u: "take 3 (calls (snd (undeploy graceful_ctx (start_state running_machine)))) =
                  [Kill 77 15, Sleep 2, Kill 77 9]"
    by (simp add: start_state_def)
  show ?thesis using c g t u by blast
qed

section \<open>The polling loop\<close>

lemma classify_line_None: "classify_line l = None \<longleftrightarrow> \<not> flagged l"
  by (simp add: classify_line_def flagged_def Let_def)

lemma classify_line_in_use:
  "flagged l \<Longrightarrow> contains (lower (strip l)) (asc ''address already in use'') \<Longrightarrow>
   classify_line l = Some err_port_in_use"
  by (simp add: classify_line_def flagged_def Let_def)

lemma scan_lines_skip:
  "\<forall>x \<in> set pre. \<not> flagged x \<Longrightarrow> scan_lines (pre @ rest) = scan_lines rest"
  by (induction pre) (simp_all add: classify_line_None[symmetric])

lemma scan_lines_unflagged: "\<forall>x \<in> set ls. \<not> flagged x \<Longrightarrow> scan_lines ls = None"
  using scan_lines_skip[of ls "[]"] by simp

lemma log_all_fields [simp]:
  "calls (log_all cx lvl msgs s) = calls s"
  "clock (log_all cx lvl msgs s) = clock s"
  "pid_file (machine (log_all cx lvl msgs s)) = pid_file (machine s)"
  "procs (machine (log_all cx lvl msgs s)) = procs (machine s)"
  "config_file (machine (log_all cx lvl msgs s)) = config_file (machine s)"
  unfolding log_all_def by (induction msgs arbitrary: s) simp_all

lemma log_all_console:
  "console (log_all cx lvl msgs s) = console s @ map (format_record cx (clock s) lvl) msgs"
  unfolding log_all_def by (induction msgs arbitrary: s) (simp_all add: logger_machine(2))

lemma provide_error_solution_fields [simp]:
  "calls (provide_error_solution cx e s) = calls s"
  "clock (provide_error_solution cx e s) = clock s"
  by (simp_all add: provide_error_solution_def)

lemma sleep_one:
  "sleep cx 1 s = s\<lparr>machine := tick cx (machine s), calls := calls s @ [Sleep 1],
                    clock := clock s + 1\<rparr>"
  by (simp add: sleep_def)

lemma sleep_slept:
  "ask (pid_queries cx (machine (sleep cx 1 (slept cx j s)))) (sleep cx 1 (slept cx j s)) =
   slept cx (Suc j) s"
  by (simp add: sleep_def slept_def ask_def replicate_append_same)

lemma slept_0: "slept cx 0 s = s"
  by (simp add: slept_def)

lemma poll_bounded:
  "\<exists>j \<le> k. calls (snd (poll cx p k s)) = calls s @ replicate j (Sleep 1) \<and>
           clock (snd (poll cx p k s)) = clock s + j"
proof (induction k arbitrary: s)
  case 0
  then show ?case by simp
next
  case (Suc k)
  let ?s1 = "ask (pid_queries cx (machine (sleep cx 1 s))) (sleep cx 1 s)"
  from Suc.IH[of ?s1] obtain j where j: "j \<le> k"
    "calls (snd (poll cx p k ?s1)) = calls ?s1 @ replicate j (Sleep 1)"
    "clock (snd (poll cx p k ?s1)) = clock ?s1 + j" by blast
  have stop: "\<exists>j \<le> Suc k. calls ?s1 = calls s @ replicate j (Sleep 1) \<and> clock ?s1 = clock s + j"
    by (rule exI[of _ 1]) (simp add: sleep_def)
  have go: "\<exists>i \<le> Suc k. calls (snd (poll cx p k ?s1)) = calls s @ replicate i (Sleep 1) \<and>
              clock (snd (poll cx p k ?s1)) = clock s + i"
    using j by (intro exI[of _ "Suc j"]) (simp add: sleep_def)
  show ?case
    using stop go by (auto simp: Let_def split: option.splits)
qed

lemma poll_silent_step:
  "silent cx (tick cx (machine s)) \<Longrightarrow>
   poll cx p (Suc k) s = poll cx p k (ask (pid_queries cx (machine (sleep cx 1 s))) (sleep cx 1 s))"
  by (auto simp: silent_def truthy_def sleep_def Let_def split: option.splits)

lemma poll_silent:
  "\<forall>i. 1 \<le> i \<and> i \<le> j \<longrightarrow> silent cx ((tick cx ^^ i) (machine s)) \<Longrightarrow>
   poll cx p (j + k) s = poll cx p k (slept cx j s)"
proof (induction j arbitrary: k)
  case 0
  then show ?case by (simp add: slept_0)
next
  case (Suc j)
  have pre: "\<forall>i. 1 \<le> i \<and> i \<le> j \<longrightarrow> silent cx ((tick cx ^^ i) (machine s))"
    using Suc.prems by simp
  have ih: "poll cx p (j + Suc k) s = poll cx p (Suc k) (slept cx j s)"
    by (rule Suc.IH[OF pre])
  have "silent cx ((tick cx ^^ Suc j) (machine s))"
    using Suc.prems[rule_format, of "Suc j"] by simp
  then have "silent cx (tick cx (machine (slept cx j s)))"
    by (simp add: slept_def)
  then have st: "poll cx p (Suc k) (slept cx j s) = poll cx p k (slept cx (Suc j) s)"
    by (simp only: poll_silent_step sleep_slept)
  have e: "Suc j + k = j + Suc k" by simp
  show ?case unfolding e ih st ..
qed

lemma err_port_in_use_facts:
  "err_port_in_use \<noteq> []" "contains err_port_in_use err_port_in_use"
  using contains_prefix[of err_port_in_use "[]"] by (simp_all add: err_port_in_use_def)

lemma wait_for_start_silent:
  assumes "\<forall>i. 1 \<le> i \<and> i \<le> max_wait \<longrightarrow>
             silent cx ((tick cx ^^ i) (machine (logger cx INFO msg_waiting s)))"
  shows "wait_for_start cx p s =
           (False, report_timeout cx (slept cx max_wait (logger cx INFO msg_waiting s)))"
  using poll_silent[OF assms, of p 0] by (simp add: wait_for_start_def)

lemma quiet_tick: "(tick quiet_ctx ^^ i) m = m"
  by (induction i) (simp_all add: quiet_ctx_def)

text \<open>
  C3, as the code has it. In an iteration of the startup loop (the \<open>Suc j\<close>-th, after
  \<open>j\<close> silent ones) in which the recorded process is not alive, if the first flagged
  line among the last ten lines of the log (flagged: lower-cased and stripped it holds
  \<open>error:\<close> or \<open>failed\<close>) holds \<open>address already in use\<close>, then
  \<open>_check_startup_errors\<close> answers with the port-in-use text, and the loop ends in that
  very iteration with failure, after \<open>Suc j\<close> of the ten seconds, logging the failure
  and the advice for an occupied port.
\<close>

theorem port_in_use_ends_the_wait:
  assumes "j < max_wait"
    and "\<forall>i. 1 \<le> i \<and> i \<le> j \<longrightarrow> silent cx ((tick cx ^^ i) (machine s))"
    and "\<not> check_pid_file_process cx ((tick cx ^^ Suc j) (machine s))"
    and "log_file ((tick cx ^^ Suc j) (machine s)) = Some ls"
    and "(if length ls \<ge> 10 then last_n 10 ls else ls) = pre @ l # post"
    and "\<forall>x \<in> set pre. \<not> flagged x"
    and "flagged l"
    and "contains (lower (strip l)) (asc ''address already in use'')"
  shows "check_startup_errors ((tick cx ^^ Suc j) (machine s)) = Some err_port_in_use \<and>
         fst (poll cx p max_wait s) = Some False \<and>
         clock (snd (poll cx p max_wait s)) = clock s + Suc j \<and>
         calls (snd (poll cx p max_wait s)) = calls s @ replicate (Suc j) (Sleep 1) \<and>
         console (snd (poll cx p max_wait s)) =
           console s @
           format_record cx (clock s + Suc j) ERROR (msg_start_failed @ err_port_in_use) #
           map (format_record cx (clock s + Suc j) INFO)
             [msg_solution, msg_sol_port1, msg_sol_port2, msg_sol_port3]"
proof -
  let ?m = "(tick cx ^^ Suc j) (machine s)"
  have "scan_lines (pre @ l # post) = Some err_port_in_use"
    using assms(6) classify_line_in_use[OF assms(7,8)] by (simp add: scan_lines_skip)
  then have e: "check_startup_errors ?m = Some err_port_in_use"
    using assms(4,5) by (simp add: check_startup_errors_def)
  define k where "k = max_wait - Suc j"
  have k: "max_wait = j + Suc k"
    using assms(1) by (simp add: k_def)
  have p: "poll cx p max_wait s = poll cx p (Suc k) (slept cx j s)"
    unfolding k by (rule poll_silent[OF assms(2)])
  have m: "machine (slept cx (Suc j) s) = ?m" by (simp add: slept_def)
  have "poll cx p (Suc k) (slept cx j s) =
          (Some False, provide_error_solution cx err_port_in_use
             (logger cx ERROR (msg_start_failed @ err_port_in_use) (slept cx (Suc j) s)))"
    using assms(3) e err_port_in_use_facts(1)
    by (simp only: poll.simps sleep_slept Let_def m) simp
  with p have r: "poll cx p max_wait s =
          (Some False, provide_error_solution cx err_port_in_use
             (logger cx ERROR (msg_start_failed @ err_port_in_use) (slept cx (Suc j) s)))"
    by simp
  have c: "console (provide_error_solution cx err_port_in_use
             (logger cx ERROR (msg_start_failed @ err_port_in_use) (slept cx (Suc j) s))) =
           console s @
           format_record cx (clock s + Suc j) ERROR (msg_start_failed @ err_port_in_use) #
           map (format_record cx (clock s + Suc j) INFO)
             [msg_solution, msg_sol_port1, msg_sol_port2, msg_sol_port3]"
    using err_port_in_use_facts(2)
    by (simp add: provide_error_solution_def log_all_console logger_machine(2) slept_def)
  show ?thesis
    unfolding r using e c by (simp add: slept_def)
qed

lemma crashed_facts:
  "flagged error_line" "contains (lower (strip error_line)) (asc ''address already in use'')"
  by (simp_all add: flagged_def error_line_def strip_def lower_def lower_cp_def is_space_def
      asc_def)

lemma bare_facts:
  "\<not> flagged bare_line" "contains (lower (strip bare_line)) (asc ''address already in use'')"
  by (simp_all add: flagged_def bare_line_def strip_def lower_def lower_cp_def is_space_def
      asc_def)

lemma waiting_record_not_flagged: "\<not> flagged (format_record quiet_ctx 0 INFO msg_waiting)"
  by (simp add: flagged_def format_record_def quiet_ctx_def msg_waiting_def str_nat.simps
      strip_def lower_def lower_cp_def is_space_def asc_def)

theorem port_in_use_ends_the_wait_witness:
  "flagged error_line \<and>
   contains (lower (strip error_line)) (asc ''address already in use'') \<and>
   \<not> check_pid_file_process quiet_ctx crashed_machine \<and>
   check_startup_errors crashed_machine = Some err_port_in_use \<and>
   fst (poll quiet_ctx 4242 max_wait (start_state crashed_machine)) = Some False \<and>
   clock (snd (poll quiet_ctx 4242 max_wait (start_state crashed_machine))) = 1"
proof -
  let ?s = "start_state crashed_machine"
  have m: "(tick quiet_ctx ^^ Suc 0) (machine ?s) = crashed_machine"
    using quiet_tick[of "Suc 0" crashed_machine] by (simp add: start_state_def)
  have a: "0 < max_wait" by (simp add: max_wait_def)
  have b: "\<forall>i. 1 \<le> i \<and> i \<le> 0 \<longrightarrow> silent quiet_ctx ((tick quiet_ctx ^^ i) (machine ?s))"
    by simp
  have c: "\<not> check_pid_file_process quiet_ctx ((tick quiet_ctx ^^ Suc 0) (machine ?s))"
    unfolding m
    by (simp add: check_pid_file_process_def crashed_machine_def quiet_ctx_def os_kill_def
        find_proc_def)
  have d: "log_file ((tick quiet_ctx ^^ Suc 0) (machine ?s)) = Some [error_line]"
    unfolding m by (simp add: crashed_machine_def)
  have e: "(if length [error_line] \<ge> 10 then last_n 10 [error_line] else [error_line]) =
             [] @ error_line # []"
    by simp
  have f: "\<forall>x \<in> set []. \<not> flagged x" by simp
  from port_in_use_ends_the_wait[OF a b c d e f crashed_facts, of 4242] c
  show ?thesis
    unfolding m using crashed_facts by (simp add: start_state_def)
qed

lemma dead_4242:
  "pid_file m = Pid 4242 \<Longrightarrow> procs m = [] \<Longrightarrow> \<not> check_pid_file_process quiet_ctx m"
  by (simp add: check_pid_file_process_def quiet_ctx_def os_kill_def find_proc_def)

lemma mute_machine_silent:
  "silent quiet_ctx mute_machine"
  "silent quiet_ctx (machine (logger quiet_ctx INFO msg_waiting (start_state mute_machine)))"
proof -
  let ?w = "logger quiet_ctx INFO msg_waiting (start_state mute_machine)"
  have d1: "\<not> check_pid_file_process quiet_ctx mute_machine"
    by (rule dead_4242) (simp_all add: mute_machine_def)
  have "scan_lines [bare_line] = None"
    by (rule scan_lines_unflagged) (simp add: bare_facts(1))
  then have e1: "check_startup_errors mute_machine = None"
    by (simp add: check_startup_errors_def mute_machine_def del: scan_lines.simps)
  show "silent quiet_ctx mute_machine"
    using d1 e1 by (simp add: silent_def truthy_def)
  have d2: "\<not> check_pid_file_process quiet_ctx (machine ?w)"
    by (rule dead_4242) (simp_all add: mute_machine_def start_state_def)
  have l2: "log_file (machine ?w) =
              Some ([bare_line] @ lines_of (format_record quiet_ctx 0 INFO msg_waiting))"
    by (simp add: logger_machine(1) start_state_def mute_machine_def)
  have "lines_of (format_record quiet_ctx 0 INFO msg_waiting) =
          [format_record quiet_ctx 0 INFO msg_waiting]"
    by (simp add: format_record_def quiet_ctx_def msg_waiting_def str_nat.simps asc_def)
  with l2 have "log_file (machine ?w) =
                  Some [bare_line, format_record quiet_ctx 0 INFO msg_waiting]"
    by simp
  moreover have "scan_lines [bare_line, format_record quiet_ctx 0 INFO msg_waiting] = None"
    by (rule scan_lines_unflagged) (simp add: bare_facts(1) waiting_record_not_flagged)
  ultimately have e2: "check_startup_errors (machine ?w) = None"
    by (simp add: check_startup_errors_def del: scan_lines.simps)
  show "silent quiet_ctx (machine ?w)"
    using d2 e2 by (simp add: silent_def truthy_def)
qed

text \<open>
  The claim as the specification words it fails: the last line of the log holds
  \<open>address already in use\<close> but neither \<open>error:\<close> nor \<open>failed\<close>; the recorded process
  is not alive; nothing is classified, and the loop runs its ten seconds out.
\<close>

theorem unflagged_port_in_use_times_out:
  "contains (lower (strip bare_line)) (asc ''address already in use'') \<and>
   log_file mute_machine = Some [bare_line] \<and>
   \<not> check_pid_file_process quiet_ctx mute_machine \<and>
   check_startup_errors mute_machine = None \<and>
   fst (poll quiet_ctx 4242 max_wait (start_state mute_machine)) = None \<and>
   clock (snd (poll quiet_ctx 4242 max_wait (start_state mute_machine))) = 10 \<and>
   \<not> fst (wait_for_start quiet_ctx 4242 (start_state mute_machine)) \<and>
   clock (snd (wait_for_start quiet_ctx 4242 (start_state mute_machine))) = 10"
proof -
  let ?s = "start_state mute_machine"
  let ?w = "logger quiet_ctx INFO msg_waiting ?s"
  have d1: "\<not> check_pid_file_process quiet_ctx mute_machine"
    by (rule dead_4242) (simp_all add: mute_machine_def)
  have "scan_lines [bare_line] = None"
    by (rule scan_lines_unflagged) (simp add: bare_facts(1))
  then have e1: "check_startup_errors mute_machine = None"
    by (simp add: check_startup_errors_def mute_machine_def del: scan_lines.simps)
  have p: "poll quiet_ctx 4242 max_wait ?s = (None, slept quiet_ctx max_wait ?s)"
    using poll_silent[of max_wait quiet_ctx ?s 4242 0] mute_machine_silent(1)
    by (simp add: quiet_tick start_state_def)
  have w: "wait_for_start quiet_ctx 4242 ?s =
             (False, report_timeout quiet_ctx (slept quiet_ctx max_wait ?w))"
    by (rule wait_for_start_silent) (simp add: quiet_tick mute_machine_silent(2))
  have c: "clock (report_timeout quiet_ctx st) = clock st" for st
    by (simp add: report_timeout_def Let_def)
  have l0: "log_file mute_machine = Some [bare_line]"
    by (simp add: mute_machine_def)
  have r1: "fst (poll quiet_ctx 4242 max_wait ?s) = None"
    by (simp only: p fst_conv)
  have r2: "clock (snd (poll quiet_ctx 4242 max_wait ?s)) = 10"
    by (simp only: p snd_conv) (simp add: slept_def max_wait_def start_state_def)
  have r3: "\<not> fst (wait_for_start quiet_ctx 4242 ?s)"
    by (simp only: w fst_conv) simp
  have r4: "clock (snd (wait_for_start quiet_ctx 4242 ?s)) = 10"
    by (simp only: w snd_conv c) (simp add: slept_def max_wait_def start_state_def)
  show ?thesis
    using bare_facts(2) l0 d1 e1 r1 r2 r3 r4 by blast
qed

lemma report_timeout_fields [simp]:
  "calls (report_timeout cx s) = calls s" "clock (report_timeout cx s) = clock s"
  by (simp_all add: report_timeout_def Let_def)

lemma wait_for_start_bounded:
  "\<exists>j \<le> max_wait. calls (snd (wait_for_start cx p s)) = calls s @ replicate j (Sleep 1) \<and>
                   clock (snd (wait_for_start cx p s)) = clock s + j"
proof -
  let ?w = "logger cx INFO msg_waiting s"
  obtain r s1 where pr: "poll cx p max_wait ?w = (r, s1)"
    by (cases "poll cx p max_wait ?w") auto
  from poll_bounded[of max_wait cx p ?w] pr
  obtain j where "j \<le> max_wait" "calls s1 = calls s @ replicate j (Sleep 1)"
    "clock s1 = clock s + j" by auto
  then show ?thesis
    by (cases r) (auto simp: wait_for_start_def pr)
qed

lemma last_n_nonempty: "xs \<noteq> [] \<Longrightarrow> 0 < n \<Longrightarrow> last_n n xs \<noteq> []"
  by (cases xs) (auto simp: last_n_def)

lemma last_n_rev: "last_n n xs = rev (take n (rev xs))"
  by (simp add: last_n_def take_rev)

lemma last_5_of_last_10: "last_n 5 (map f (last_n 10 xs)) = map f (rev (take 5 (rev xs)))"
  by (simp add: last_n_rev rev_map take_map)

lemma report_timeout_console:
  "console (report_timeout cx s) =
     console s @
     format_record cx (clock s) ERROR (msg_timeout_a @ asc ''10'' @ msg_timeout_b) #
     (case log_file (machine s) of
        None \<Rightarrow> []
      | Some ls \<Rightarrow>
          format_record cx (clock s) ERROR msg_recent #
          map (\<lambda>l. format_record cx (clock s) ERROR (asc ''  '' @ strip l))
            (rev (take 5 (rev (ls @ lines_of (format_record cx (clock s) ERROR
                                               (msg_timeout_a @ asc ''10'' @ msg_timeout_b)))))))"
proof -
  have ten: "str_nat max_wait = asc ''10''"
    by (simp add: max_wait_def str_nat.simps asc_def)
  show ?thesis
  proof (cases "log_file (machine s)")
    case None
    then show ?thesis
      by (simp add: report_timeout_def Let_def get_recent_logs_def logger_machine ten)
  next
    case (Some ls)
    let ?t = "format_record cx (clock s) ERROR (msg_timeout_a @ asc ''10'' @ msg_timeout_b)"
    have "last_n 10 (ls @ lines_of ?t) \<noteq> []"
      by (rule last_n_nonempty) (simp_all add: lines_of_nonempty)
    then have ne: "map strip (last_n 10 (ls @ lines_of ?t)) \<noteq> []"
      by simp
    show ?thesis
      using Some ne
      by (simp add: report_timeout_def Let_def get_recent_logs_def logger_machine ten
          log_all_console last_5_of_last_10 comp_def)
  qed
qed

text \<open>
  C8. The polling loop of \<open>deploy\<close> sleeps one second at most ten times. If in each of
  the ten iterations the recorded process is not alive and no startup error is found,
  the wait returns \<open>False\<close> after exactly ten sleeps, having logged the timeout and
  then, when \<open>caddy.log\<close> is there, the heading and the last five lines of the log as
  it then stands (the timeout record is its last line), each stripped and indented by
  two blanks, as error records.
\<close>

theorem startup_wait_times_out:
  "(\<exists>j \<le> max_wait. calls (snd (wait_for_start cx p s)) = calls s @ replicate j (Sleep 1) \<and>
                    clock (snd (wait_for_start cx p s)) = clock s + j) \<and>
   max_wait = 10 \<and>
   ((\<forall>i. 1 \<le> i \<and> i \<le> max_wait \<longrightarrow>
           silent cx ((tick cx ^^ i) (machine (logger cx INFO msg_waiting s)))) \<longrightarrow>
    \<not> fst (wait_for_start cx p s) \<and>
    calls (snd (wait_for_start cx p s)) = calls s @ replicate 10 (Sleep 1) \<and>
    clock (snd (wait_for_start cx p s)) = clock s + 10 \<and>
    console (snd (wait_for_start cx p s)) =
      console s @
      [format_record cx (clock s) INFO msg_waiting,
       format_record cx (clock s + 10) ERROR (msg_timeout_a @ asc ''10'' @ msg_timeout_b)] @
      (case log_file ((tick cx ^^ 10) (machine (logger cx INFO msg_waiting s))) of
         None \<Rightarrow> []
       | Some ls \<Rightarrow>
           format_record cx (clock s + 10) ERROR msg_recent #
           map (\<lambda>l. format_record cx (clock s + 10) ERROR (asc ''  '' @ strip l))
             (rev (take 5 (rev (ls @ lines_of (format_record cx (clock s + 10) ERROR
                                                (msg_timeout_a @ asc ''10'' @ msg_timeout_b))))))))"
proof (intro conjI impI)
  show "\<exists>j \<le> max_wait. calls (snd (wait_for_start cx p s)) = calls s @ replicate j (Sleep 1) \<and>
                    clock (snd (wait_for_start cx p s)) = clock s + j"
    by (rule wait_for_start_bounded)
  show m: "max_wait = 10" by (simp add: max_wait_def)
  assume q: "\<forall>i. 1 \<le> i \<and> i \<le> max_wait \<longrightarrow>
               silent cx ((tick cx ^^ i) (machine (logger cx INFO msg_waiting s)))"
  let ?e = "slept cx max_wait (logger cx INFO msg_waiting s)"
  have w: "wait_for_start cx p s = (False, report_timeout cx ?e)"
    by (rule wait_for_start_silent[OF q])
  show "\<not> fst (wait_for_start cx p s)" by (simp add: w)
  show "calls (snd (wait_for_start cx p s)) = calls s @ replicate 10 (Sleep 1)"
    by (simp add: w slept_def m)
  show "clock (snd (wait_for_start cx p s)) = clock s + 10"
    by (simp add: w slept_def m)
  have e: "clock ?e = clock s + 10" "console ?e = console s @ [format_record cx (clock s) INFO msg_waiting]"
    "machine ?e = (tick cx ^^ 10) (machine (logger cx INFO msg_waiting s))"
    by (simp_all add: slept_def m logger_machine(2))
  show "console (snd (wait_for_start cx p s)) =
      console s @
      [format_record cx (clock s) INFO msg_waiting,
       format_record cx (clock s + 10) ERROR (msg_timeout_a @ asc ''10'' @ msg_timeout_b)] @
      (case log_file ((tick cx ^^ 10) (machine (logger cx INFO msg_waiting s))) of
         None \<Rightarrow> []
       | Some ls \<Rightarrow>
           format_record cx (clock s + 10) ERROR msg_recent #
           map (\<lambda>l. format_record cx (clock s + 10) ERROR (asc ''  '' @ strip l))
             (rev (take 5 (rev (ls @ lines_of (format_record cx (clock s + 10) ERROR
                                                (msg_timeout_a @ asc ''10'' @ msg_timeout_b)))))))"
    unfolding w snd_conv report_timeout_console e by simp
qed

lemma quiet_records:
  "strip (format_record quiet_ctx 0 INFO msg_waiting) = format_record quiet_ctx 0 INFO msg_waiting"
  "lines_of (format_record quiet_ctx 0 INFO msg_waiting) =
     [format_record quiet_ctx 0 INFO msg_waiting]"
  "strip (format_record quiet_ctx 10 ERROR (msg_timeout_a @ asc ''10'' @ msg_timeout_b)) =
     format_record quiet_ctx 10 ERROR (msg_timeout_a @ asc ''10'' @ msg_timeout_b)"
  "lines_of (format_record quiet_ctx 10 ERROR (msg_timeout_a @ asc ''10'' @ msg_timeout_b)) =
     [format_record quiet_ctx 10 ERROR (msg_timeout_a @ asc ''10'' @ msg_timeout_b)]"
  by (simp_all add: format_record_def quiet_ctx_def msg_waiting_def msg_timeout_a_def
      msg_timeout_b_def str_nat.simps strip_def is_space_def asc_def)

lemma short_lines:
  "\<not> flagged (asc ''a'')" "\<not> flagged (asc ''b'')" "\<not> flagged (asc ''c'')"
  "\<not> flagged (asc ''d'')" "\<not> flagged (asc ''e'')" "\<not> flagged (asc ''f'')"
  "\<not> flagged (asc ''g'')"
  "strip (asc ''e'') = asc ''e''" "strip (asc ''f'') = asc ''f''" "strip (asc ''g'') = asc ''g''"
  by (simp_all add: flagged_def strip_def lower_def lower_cp_def is_space_def asc_def)

lemma chatty_machine_silent:
  "silent quiet_ctx (machine (logger quiet_ctx INFO msg_waiting (start_state chatty_machine)))"
proof -
  let ?w = "logger quiet_ctx INFO msg_waiting (start_state chatty_machine)"
  have d: "\<not> check_pid_file_process quiet_ctx (machine ?w)"
    by (rule dead_4242) (simp_all add: chatty_machine_def start_state_def)
  have l: "log_file (machine ?w) =
             Some [asc ''a'', asc ''b'', asc ''c'', asc ''d'', asc ''e'', asc ''f'', asc ''g'',
                   format_record quiet_ctx 0 INFO msg_waiting]"
    by (simp add: logger_machine(1) start_state_def chatty_machine_def quiet_records(2))
  have "scan_lines [asc ''a'', asc ''b'', asc ''c'', asc ''d'', asc ''e'', asc ''f'', asc ''g'',
                    format_record quiet_ctx 0 INFO msg_waiting] = None"
    by (rule scan_lines_unflagged) (simp add: short_lines waiting_record_not_flagged)
  with l have "check_startup_errors (machine ?w) = None"
    by (simp add: check_startup_errors_def del: scan_lines.simps)
  with d show ?thesis by (simp add: silent_def truthy_def)
qed

theorem startup_wait_times_out_witness:
  "silent quiet_ctx (machine (logger quiet_ctx INFO msg_waiting (start_state chatty_machine))) \<and>
   \<not> fst (wait_for_start quiet_ctx 4242 (start_state chatty_machine)) \<and>
   calls (snd (wait_for_start quiet_ctx 4242 (start_state chatty_machine))) =
     replicate 10 (Sleep 1) \<and>
   console (snd (wait_for_start quiet_ctx 4242 (start_state chatty_machine))) =
     [format_record quiet_ctx 0 INFO msg_waiting,
      format_record quiet_ctx 10 ERROR (msg_timeout_a @ asc ''10'' @ msg_timeout_b),
      format_record quiet_ctx 10 ERROR msg_recent,
      format_record quiet_ctx 10 ERROR (asc ''  '' @ asc ''e''),
      format_record quiet_ctx 10 ERROR (asc ''  '' @ asc ''f''),
      format_record quiet_ctx 10 ERROR (asc ''  '' @ asc ''g''),
      format_record quiet_ctx 10 ERROR (asc ''  '' @ format_record quiet_ctx 0 INFO msg_waiting),
      format_record quiet_ctx 10 ERROR
        (asc ''  '' @ format_record quiet_ctx 10 ERROR
                        (msg_timeout_a @ asc ''10'' @ msg_timeout_b))]"
proof -
  let ?s = "start_state chatty_machine"
  have q: "\<forall>i. 1 \<le> i \<and> i \<le> max_wait \<longrightarrow>
          silent quiet_ctx ((tick quiet_ctx ^^ i) (machine (logger quiet_ctx INFO msg_waiting ?s)))"
    by (simp add: quiet_tick chatty_machine_silent)
  have l: "log_file ((tick quiet_ctx ^^ 10) (machine (logger quiet_ctx INFO msg_waiting ?s))) =
             Some [asc ''a'', asc ''b'', asc ''c'', asc ''d'', asc ''e'', asc ''f'', asc ''g'',
                   format_record quiet_ctx 0 INFO msg_waiting]"
    by (simp add: quiet_tick logger_machine(1) start_state_def chatty_machine_def
        quiet_records(2))
  have c0: "clock ?s = 0" "console ?s = []" "calls ?s = []"
    by (simp_all add: start_state_def)
  from startup_wait_times_out[of quiet_ctx 4242 ?s] q
  have r: "\<not> fst (wait_for_start quiet_ctx 4242 ?s)"
    "calls (snd (wait_for_start quiet_ctx 4242 ?s)) = calls ?s @ replicate 10 (Sleep 1)"
    "console (snd (wait_for_start quiet_ctx 4242 ?s)) =
      console ?s @
      [format_record quiet_ctx (clock ?s) INFO msg_waiting,
       format_record quiet_ctx (clock ?s + 10) ERROR (msg_timeout_a @ asc ''10'' @ msg_timeout_b)] @
      (case log_file ((tick quiet_ctx ^^ 10) (machine (logger quiet_ctx INFO msg_waiting ?s))) of
         None \<Rightarrow> []
       | Some ls \<Rightarrow>
           format_record quiet_ctx (clock ?s + 10) ERROR msg_recent #
           map (\<lambda>l. format_record quiet_ctx (clock ?s + 10) ERROR (asc ''  '' @ strip l))
             (rev (take 5 (rev (ls @ lines_of (format_record quiet_ctx (clock ?s + 10) ERROR
                                                (msg_timeout_a @ asc ''10'' @ msg_timeout_b)))))))"
    by blast+
  have c: "console (snd (wait_for_start quiet_ctx 4242 ?s)) =
     [format_record quiet_ctx 0 INFO msg_waiting,
      format_record quiet_ctx 10 ERROR (msg_timeout_a @ asc ''10'' @ msg_timeout_b),
      format_record quiet_ctx 10 ERROR msg_recent,
      format_record quiet_ctx 10 ERROR (asc ''  '' @ asc ''e''),
      format_record quiet_ctx 10 ERROR (asc ''  '' @ asc ''f''),
      format_record quiet_ctx 10 ERROR (asc ''  '' @ asc ''g''),
      format_record quiet_ctx 10 ERROR (asc ''  '' @ format_record quiet_ctx 0 INFO msg_waiting),
      format_record quiet_ctx 10 ERROR
        (asc ''  '' @ format_record quiet_ctx 10 ERROR
                        (msg_timeout_a @ asc ''10'' @ msg_timeout_b))]"
    unfolding r(3) l c0 by (simp add: quiet_records short_lines)
  show ?thesis
    using chatty_machine_silent r(1) r(2) c by (simp add: c0)
qed

section \<open>Deploying over a running service\<close>

text \<open>
  C5, evaluated where the code leaves it. The deployer is started from its script on a
  system other than Windows, Caddy runs as process 77 and the PID file names it.
  \<open>deploy\<close> finds the service running and calls \<open>undeploy\<close> (source lines 346-348), which
  ends process 77 and removes the PID file, and then runs \<open>pkill -f caddy\<close> (line 464):
  the pattern matches the deployer's own command line, and the run ends there. No
  process is started and no process id is recorded.
\<close>

theorem restart_from_script_starts_nothing:
  "is_running script_ctx (machine (start_state running_machine)) \<and>
   fst (deploy script_ctx (start_state running_machine)) = None \<and>
   calls (snd (deploy script_ctx (start_state running_machine))) =
     [Kill 77 15, Sleep 2, Kill 77 9, Pkill] \<and>
   pid_file (machine (snd (deploy script_ctx (start_state running_machine)))) = NoFile \<and>
   procs (machine (snd (deploy script_ctx (start_state running_machine)))) = []"
  by (simp add: deploy_def conflict_stage_def stop_if_running_def undeploy_def stop_recorded_def
      term_then_kill_def kill_def os_kill_def cleanup_caddy_processes_def unlink_pid_file_def
      is_running_def check_pid_file_process_def check_any_caddy_process_def find_proc_def
      sleep_def logger_machine truthy_def Let_def quiet_ctx_def start_state_def script_ctx_def
      running_machine_def old_proc_def numeral_2_eq_2)

section \<open>The health check\<close>

lemma overall_unhealthy_iff:
  "(overall cs = ''unhealthy'') = (\<exists>c \<in> set cs. required c \<and> status c \<noteq> ''ok'')"
  by (cases "all_checks_passed cs") (auto simp add: overall_def all_checks_passed_def list_all_iff)

lemma overall_two_words: "overall cs \<noteq> ''unhealthy'' \<Longrightarrow> overall cs = ''healthy''"
  by (simp add: overall_def split: if_splits)

lemma filter_required_update:
  "i < length cs \<Longrightarrow> \<not> required (cs ! i) \<Longrightarrow>
   filter required (cs[i := (cs ! i)\<lparr>status := st\<rparr>]) = filter required cs"
proof (induction cs arbitrary: i)
  case Nil
  then show ?case by simp
next
  case (Cons c cs)
  then show ?case by (cases i) simp_all
qed

lemma overall_update:
  "i < length cs \<Longrightarrow> \<not> required (cs ! i) \<Longrightarrow>
   overall (cs[i := (cs ! i)\<lparr>status := st\<rparr>]) = overall cs"
  by (simp add: overall_def all_checks_passed_def filter_required_update)

lemma health_check_fields:
  "overall_status (health_check cx m pr detailed) = overall (map snd (run_checks cx m pr))"
  "checks (health_check cx m pr detailed) = run_checks cx m pr"
  by (simp_all add: health_check_def)

lemmas hev = health_check_def run_checks_def check_process_def process_body_def process_handler_def
  check_config_def config_body_def config_handler_def validate_config_def
  check_ports_def ports_body_def ports_handler_def extract_listening_ports_def
  is_port_listening_def check_frontend_connectivity_def frontend_body_def frontend_handler_def
  extract_frontend_endpoints_def test_http_endpoint_def
  check_backend_connectivity_def backend_body_def backend_handler_def test_backend_def
  extract_backend_endpoints_def test_backend_connection_def parse_int_def
  check_ssl_status_def ssl_body_def ssl_handler_def extract_https_endpoints_def
  get_ssl_certificate_info_def catching_def overall_def all_checks_passed_def
  is_running_def check_pid_file_process_def check_any_caddy_process_def find_proc_def
  os_kill_def Let_def


text \<open>
  C1. The overall status of a report is \<open>unhealthy\<close> exactly when one of its checks has
  \<open>required\<close> set and a status other than \<open>ok\<close>, and \<open>healthy\<close> otherwise; it is computed
  from the results of the checks alone (source lines 692-698). In a list of results,
  giving another status to a result whose \<open>required\<close> is not set leaves the overall
  status as it was, whatever the new status is: \<open>error\<close> and \<open>warning\<close> included.
\<close>

theorem health_aggregation:
  "(overall_status (health_check cx m pr detailed) = ''unhealthy'') =
     (\<exists>c \<in> snd ` set (checks (health_check cx m pr detailed)).
        required c \<and> status c \<noteq> ''ok'')
   \<and> (overall_status (health_check cx m pr detailed) \<noteq> ''unhealthy'' \<longrightarrow>
        overall_status (health_check cx m pr detailed) = ''healthy'')
   \<and> overall_status (health_check cx m pr detailed) =
       overall (map snd (checks (health_check cx m pr detailed)))
   \<and> (i < length cs \<and> \<not> required (cs ! i) \<longrightarrow>
        overall (cs[i := (cs ! i)\<lparr>status := st\<rparr>]) = overall cs)"
proof -
  have a: "(overall_status (health_check cx m pr detailed) = ''unhealthy'') =
     (\<exists>c \<in> snd ` set (checks (health_check cx m pr detailed)).
        required c \<and> status c \<noteq> ''ok'')"
    unfolding health_check_fields overall_unhealthy_iff by simp
  have b: "overall_status (health_check cx m pr detailed) \<noteq> ''unhealthy'' \<longrightarrow>
        overall_status (health_check cx m pr detailed) = ''healthy''"
    unfolding health_check_fields using overall_two_words by blast
  have c: "overall_status (health_check cx m pr detailed) =
       overall (map snd (checks (health_check cx m pr detailed)))"
    by (simp add: health_check_fields)
  have d: "i < length cs \<and> \<not> required (cs ! i) \<longrightarrow>
        overall (cs[i := (cs ! i)\<lparr>status := st\<rparr>]) = overall cs"
    using overall_update by blast
  from a b c d show ?thesis by blast
qed

theorem health_aggregation_witness:
  "5 < length (map snd (checks (health_check quiet_ctx running_machine up_probes False))) \<and>
   \<not> required (map snd (checks (health_check quiet_ctx running_machine up_probes False)) ! 5) \<and>
   overall_status (health_check quiet_ctx running_machine up_probes False) = ''healthy'' \<and>
   overall ((map snd (checks (health_check quiet_ctx running_machine up_probes False)))
              [5 := (map snd (checks (health_check quiet_ctx running_machine up_probes False)) ! 5)
                      \<lparr>status := ''error''\<rparr>]) = ''healthy''"
  using health_aggregation [of quiet_ctx running_machine up_probes False 5
      "map snd (checks (health_check quiet_ctx running_machine up_probes False))" "''error''"]
  by (simp add: hev quiet_ctx_def running_machine_def old_proc_def up_probes_def asc_def
      strip_def is_space_def is_digit_def startswith_def digits_value_def)


subsection \<open>Exceptions inside the checks\<close>

lemma run_checks_names:
  "map fst (run_checks cx m pr) = [''process'', ''config'', ''ports'', ''frontend'', ''backend'', ''ssl'']"
  by (simp add: run_checks_def)

lemma check_process_status:
  "status (check_process cx m) \<in> {''ok'', ''error''} \<and> required (check_process cx m)"
  by (simp add: check_process_def process_body_def process_handler_def catching_def
      split: pidfile.splits)

lemma check_config_status:
  "status (check_config cx m pr) \<in> {''ok'', ''error''} \<and> required (check_config cx m pr)"
  by (simp add: check_config_def config_body_def catching_def)

lemma check_ports_status:
  "status (check_ports pr) \<in> {''ok'', ''error''} \<and> required (check_ports pr)"
  by (simp add: check_ports_def ports_body_def ports_handler_def catching_def split: sum.splits)

lemma check_frontend_status:
  "status (check_frontend_connectivity pr) \<in> {''ok'', ''error''} \<and>
   required (check_frontend_connectivity pr)"
  by (simp add: check_frontend_connectivity_def frontend_body_def catching_def Let_def)

lemma check_backend_status:
  "status (check_backend_connectivity pr) \<in> {''ok'', ''warning''} \<and>
   required (check_backend_connectivity pr) = (status (check_backend_connectivity pr) = ''ok'')"
  by (simp add: check_backend_connectivity_def backend_body_def backend_handler_def catching_def
      split: sum.splits)

lemma check_ssl_status_status:
  "status (check_ssl_status pr) \<in> {''info'', ''ok'', ''warning''} \<and>
   \<not> required (check_ssl_status pr)"
  by (simp add: check_ssl_status_def ssl_body_def catching_def Let_def)

lemma check_process_unparsable:
  "is_running cx m \<Longrightarrow> pid_file m = Unparsable t \<Longrightarrow>
   check_process cx m = \<lparr>status = ''error'', message = hc_process_failed @ t, required = True,
                          detail = NoDetail\<rparr>"
  by (simp add: check_process_def process_body_def process_handler_def catching_def)

lemma listening_among_raises:
  "p \<in> set ports \<Longrightarrow> connect pr (asc ''127.0.0.1'') p = Inl e \<Longrightarrow> \<not> is_OSError e \<Longrightarrow>
   \<exists>e'. listening_among pr ports = Inl e'"
proof (induction ports)
  case Nil
  then show ?case by simp
next
  case (Cons q ports)
  show ?case
  proof (cases "is_port_listening pr (asc ''127.0.0.1'') q")
    case (Inl e0)
    then show ?thesis by simp
  next
    case (Inr up)
    have "p \<noteq> q"
    proof
      assume "p = q"
      with Cons.prems(2,3) have "is_port_listening pr (asc ''127.0.0.1'') q = Inl e"
        by (simp add: is_port_listening_def)
      with Inr show False by simp
    qed
    with Cons.prems(1) have "p \<in> set ports" by simp
    from Cons.IH[OF this Cons.prems(2,3)] obtain e' where "listening_among pr ports = Inl e'" ..
    with Inr show ?thesis by simp
  qed
qed

lemma check_ports_raises:
  assumes "ports_found pr = Inr ports" and "p \<in> set ports"
    and "connect pr (asc ''127.0.0.1'') p = Inl e" and "\<not> is_OSError e"
  shows "status (check_ports pr) = ''error''"
proof -
  have "p \<in> set (extract_listening_ports pr)"
    using assms(1,2) by (simp add: extract_listening_ports_def catching_def)
  from listening_among_raises[OF this assms(3,4)]
  obtain e' where "listening_among pr (extract_listening_ports pr) = Inl e'" ..
  then show ?thesis
    by (simp add: check_ports_def ports_body_def ports_handler_def catching_def)
qed

lemma test_backend_pieces:
  "length (split_colon b) \<noteq> 2 \<Longrightarrow> \<exists>e. test_backend pr b = Inl e"
proof (cases "split_colon b")
  case Nil
  then show ?thesis by (simp add: test_backend_def)
next
  case (Cons x xs)
  note c1 = this
  assume len: "length (split_colon b) \<noteq> 2"
  show ?thesis
  proof (cases xs)
    case Nil
    with c1 show ?thesis by (simp add: test_backend_def)
  next
    case (Cons y ys)
    with c1 len have "ys \<noteq> []" by auto
    then obtain z zs where "ys = z # zs" by (cases ys) auto
    with c1 Cons show ?thesis by (simp add: test_backend_def)
  qed
qed

lemma test_backends_raises:
  "b \<in> set bs \<Longrightarrow> length (split_colon b) \<noteq> 2 \<Longrightarrow> \<exists>e. test_backends pr bs = Inl e"
proof (induction bs)
  case Nil
  then show ?case by simp
next
  case (Cons c bs)
  show ?case
  proof (cases "test_backend pr c")
    case (Inl e0)
    then show ?thesis by simp
  next
    case (Inr r)
    have "b \<noteq> c"
    proof
      assume "b = c"
      with test_backend_pieces[OF Cons.prems(2), of pr] Inr show False by auto
    qed
    with Cons.prems(1) have "b \<in> set bs" by simp
    from Cons.IH[OF this Cons.prems(2)] obtain e where "test_backends pr bs = Inl e" ..
    with Inr show ?thesis by simp
  qed
qed

lemma check_backend_raises:
  assumes "backends_found pr = Inr bs" and "b \<in> set bs" and "length (split_colon b) \<noteq> 2"
  shows "status (check_backend_connectivity pr) = ''warning''"
proof -
  have "b \<in> set (extract_backend_endpoints pr)"
    using assms(1,2) by (simp add: extract_backend_endpoints_def catching_def)
  from test_backends_raises[OF this assms(3)]
  obtain e where "test_backends pr (extract_backend_endpoints pr) = Inl e" ..
  then show ?thesis
    by (simp add: check_backend_connectivity_def backend_body_def backend_handler_def catching_def)
qed

lemma check_ssl_unreadable:
  "frontends_found pr = Inl e \<Longrightarrow>
   check_ssl_status pr = \<lparr>status = ''info'', message = hc_no_https, required = False,
                           detail = NoDetail\<rparr>"
  by (simp add: check_ssl_status_def ssl_body_def catching_def extract_https_endpoints_def
      extract_frontend_endpoints_def startswith_def asc_def)

lemma extract_ports_unreadable:
  "ports_found pr = Inl e \<Longrightarrow> extract_listening_ports pr = [80, 443]"
  by (simp add: extract_listening_ports_def catching_def)

text \<open>
  C9, as the code has it. The report always holds the six results, in this order.
  The process, config, ports and frontend checks say \<open>ok\<close> or \<open>error\<close> and are required;
  the backend check says \<open>ok\<close> (required) or \<open>warning\<close> (not required); the ssl check
  says \<open>info\<close>, \<open>ok\<close> or \<open>warning\<close> and is never required. An exception that reaches
  the handler of a check becomes its result: \<open>error\<close> for an unparsable PID file while
  Caddy runs (process) and for a configured port whose connection attempt raises
  something other than an \<open>OSError\<close> (ports), \<open>warning\<close> for a backend address that
  does not split into two pieces at \<open>:\<close> (backend). An exception raised while the
  configuration is read is swallowed by the extracting helper (source lines 1023,
  1058, 1078): the ports checked are then 80 and 443, and the ssl check says \<open>info\<close>.
\<close>

theorem every_check_reports:
  "map fst (checks (health_check cx m pr detailed)) =
     [''process'', ''config'', ''ports'', ''frontend'', ''backend'', ''ssl'']
   \<and> status (check_process cx m) \<in> {''ok'', ''error''} \<and> required (check_process cx m)
   \<and> status (check_config cx m pr) \<in> {''ok'', ''error''} \<and> required (check_config cx m pr)
   \<and> status (check_ports pr) \<in> {''ok'', ''error''} \<and> required (check_ports pr)
   \<and> status (check_frontend_connectivity pr) \<in> {''ok'', ''error''}
   \<and> required (check_frontend_connectivity pr)
   \<and> status (check_backend_connectivity pr) \<in> {''ok'', ''warning''}
   \<and> required (check_backend_connectivity pr) = (status (check_backend_connectivity pr) = ''ok'')
   \<and> status (check_ssl_status pr) \<in> {''info'', ''ok'', ''warning''}
   \<and> \<not> required (check_ssl_status pr)
   \<and> (is_running cx m \<and> pid_file m = Unparsable t \<longrightarrow>
        check_process cx m = \<lparr>status = ''error'', message = hc_process_failed @ t,
                               required = True, detail = NoDetail\<rparr>)
   \<and> (ports_found pr = Inr ports \<and> p \<in> set ports \<and>
        connect pr (asc ''127.0.0.1'') p = Inl e \<and> \<not> is_OSError e \<longrightarrow>
        status (check_ports pr) = ''error'')
   \<and> (backends_found pr = Inr bs \<and> b \<in> set bs \<and> length (split_colon b) \<noteq> 2 \<longrightarrow>
        status (check_backend_connectivity pr) = ''warning'')
   \<and> (ports_found pr = Inl e' \<longrightarrow> extract_listening_ports pr = [80, 443])
   \<and> (frontends_found pr = Inl e' \<longrightarrow>
        check_ssl_status pr = \<lparr>status = ''info'', message = hc_no_https, required = False,
                                detail = NoDetail\<rparr>)"
proof -
  have names: "map fst (checks (health_check cx m pr detailed)) =
     [''process'', ''config'', ''ports'', ''frontend'', ''backend'', ''ssl'']"
    by (simp add: health_check_fields run_checks_names)
  note sets = check_process_status[of cx m] check_config_status[of cx m pr]
    check_ports_status[of pr] check_frontend_status[of pr] check_backend_status[of pr]
    check_ssl_status_status[of pr]
  have a: "is_running cx m \<and> pid_file m = Unparsable t \<longrightarrow>
        check_process cx m = \<lparr>status = ''error'', message = hc_process_failed @ t,
                               required = True, detail = NoDetail\<rparr>"
    using check_process_unparsable by blast
  have b: "ports_found pr = Inr ports \<and> p \<in> set ports \<and>
        connect pr (asc ''127.0.0.1'') p = Inl e \<and> \<not> is_OSError e \<longrightarrow>
        status (check_ports pr) = ''error''"
    using check_ports_raises by blast
  have c: "backends_found pr = Inr bs \<and> b \<in> set bs \<and> length (split_colon b) \<noteq> 2 \<longrightarrow>
        status (check_backend_connectivity pr) = ''warning''"
    using check_backend_raises by blast
  have d: "ports_found pr = Inl e' \<longrightarrow> extract_listening_ports pr = [80, 443]"
    using extract_ports_unreadable by blast
  have e: "frontends_found pr = Inl e' \<longrightarrow>
        check_ssl_status pr = \<lparr>status = ''info'', message = hc_no_https, required = False,
                                detail = NoDetail\<rparr>"
    using check_ssl_unreadable by blast
  from names sets a b c d e show ?thesis by blast
qed

theorem every_check_reports_witness:
  "is_running quiet_ctx garbled_machine \<and>
   pid_file garbled_machine = Unparsable (asc ''invalid literal'') \<and>
   check_process quiet_ctx garbled_machine =
     \<lparr>status = ''error'', message = hc_process_failed @ asc ''invalid literal'',
      required = True, detail = NoDetail\<rparr> \<and>
   ports_found odd_probes = Inr [99999] \<and>
   connect odd_probes (asc ''127.0.0.1'') 99999 = Inl port_overflow \<and>
   \<not> is_OSError port_overflow \<and>
   status (check_ports odd_probes) = ''error'' \<and>
   backends_found odd_probes = Inr [asc ''backend''] \<and>
   length (split_colon (asc ''backend'')) \<noteq> 2 \<and>
   status (check_backend_connectivity odd_probes) = ''warning'' \<and>
   frontends_found odd_probes = Inl undecodable \<and>
   status (check_ssl_status odd_probes) = ''info'' \<and>
   map fst (checks (health_check quiet_ctx garbled_machine odd_probes False)) =
     [''process'', ''config'', ''ports'', ''frontend'', ''backend'', ''ssl'']"
  using every_check_reports [of quiet_ctx garbled_machine odd_probes False
      "asc ''invalid literal''" "[99999]" 99999 port_overflow "[asc ''backend'']"
      "asc ''backend''" undecodable]
  by (simp add: hev quiet_ctx_def garbled_machine_def running_machine_def old_proc_def
      odd_probes_def up_probes_def port_overflow_def undecodable_def asc_def)

text \<open>
  The claim as the specification words it fails. The configuration file cannot be
  decoded, so each of the three extracting helpers raises inside its \<open>try\<close> block. The
  ports check goes on with ports 80 and 443, finds them open and says \<open>ok\<close>; the ssl
  check goes on with \<open>http://localhost\<close>, finds no HTTPS endpoint and says \<open>info\<close>.
  Neither result is \<open>error\<close> or \<open>warning\<close>.
\<close>

theorem unreadable_config_reports_ok_and_info:
  "frontends_found unreadable_probes = Inl undecodable \<and>
   ports_found unreadable_probes = Inl undecodable \<and>
   checks (health_check quiet_ctx running_machine unreadable_probes False) ! 2 =
     (''ports'', \<lparr>status = ''ok'', message = hc_ports_ok @ asc ''[80, 443]'', required = True,
                  detail = PortsDetail [80, 443]\<rparr>) \<and>
   checks (health_check quiet_ctx running_machine unreadable_probes False) ! 5 =
     (''ssl'', \<lparr>status = ''info'', message = hc_no_https, required = False,
                detail = NoDetail\<rparr>)"
  by (simp add: hev quiet_ctx_def running_machine_def old_proc_def unreadable_probes_def asc_def
      strip_def is_space_def is_digit_def startswith_def digits_value_def str_int_list_def
      str_int_def str_nat.simps)

end
